theory Spec2Isabelle
  imports Complex_Main
begin

section \<open>Numbers, vectors and matrices\<close>

text \<open>
  The C++ sources compute with \<open>float\<close> and with GLM's \<open>vec3\<close>, \<open>vec4\<close> and \<open>mat4\<close>.
  This development idealises \<open>float\<close> as \<open>real\<close>: a literal such as \<open>2.2f\<close> is the
  rational \<open>2.2\<close>, \<open>sin\<close> and \<open>cos\<close> are the real functions, and no rounding occurs.
  GLM is a library outside the repository; the five GLM functions the sources call are
  written here after GLM's own definitions (\<open>mat4\<close> is column-major: four columns, each a
  \<open>vec4\<close>).
\<close>

datatype vec3 = Vec3 (vx: real) (vy: real) (vz: real)

datatype vec4 = Vec4 real real real real

datatype mat4 = Mat4 vec4 vec4 vec4 vec4

fun vec3_add :: "vec3 \<Rightarrow> vec3 \<Rightarrow> vec3" where
  "vec3_add (Vec3 a b c) (Vec3 d e f) = Vec3 (a + d) (b + e) (c + f)"

fun vec3_sub :: "vec3 \<Rightarrow> vec3 \<Rightarrow> vec3" where
  "vec3_sub (Vec3 a b c) (Vec3 d e f) = Vec3 (a - d) (b - e) (c - f)"

fun vec3_scale :: "real \<Rightarrow> vec3 \<Rightarrow> vec3" where
  "vec3_scale k (Vec3 a b c) = Vec3 (k * a) (k * b) (k * c)"

fun glm_dot :: "vec3 \<Rightarrow> vec3 \<Rightarrow> real" where
  "glm_dot (Vec3 a b c) (Vec3 d e f) = a * d + b * e + c * f"

fun glm_cross :: "vec3 \<Rightarrow> vec3 \<Rightarrow> vec3" where
  "glm_cross (Vec3 a b c) (Vec3 d e f) = Vec3 (b * f - e * c) (c * d - f * a) (a * e - d * b)"

text \<open>\<open>glm::normalize(v) = v * inversesqrt(dot(v, v))\<close>.\<close>

definition glm_normalize :: "vec3 \<Rightarrow> vec3" where
  "glm_normalize v = vec3_scale (1 / sqrt (glm_dot v v)) v"

text \<open>\<open>glm::radians\<close> and \<open>glm::degrees\<close>.\<close>

definition glm_radians :: "real \<Rightarrow> real" where
  "glm_radians d = d * pi / 180"

definition glm_degrees :: "real \<Rightarrow> real" where
  "glm_degrees r = r * 180 / pi"

fun vec4_add :: "vec4 \<Rightarrow> vec4 \<Rightarrow> vec4" where
  "vec4_add (Vec4 a b c d) (Vec4 e f g h) = Vec4 (a + e) (b + f) (c + g) (d + h)"

fun vec4_scale :: "vec4 \<Rightarrow> real \<Rightarrow> vec4" where
  "vec4_scale (Vec4 a b c d) k = Vec4 (a * k) (b * k) (c * k) (d * k)"

text \<open>\<open>mat4 * vec4\<close>: the linear combination of the columns.\<close>

fun mat_vec :: "mat4 \<Rightarrow> vec4 \<Rightarrow> vec4" where
  "mat_vec (Mat4 c0 c1 c2 c3) (Vec4 x y z w) =
     vec4_add (vec4_add (vec4_scale c0 x) (vec4_scale c1 y))
              (vec4_add (vec4_scale c2 z) (vec4_scale c3 w))"

text \<open>\<open>mat4 * mat4\<close>: column \<open>j\<close> of the product is the left matrix applied to column
  \<open>j\<close> of the right one.\<close>

fun mat_mul :: "mat4 \<Rightarrow> mat4 \<Rightarrow> mat4" where
  "mat_mul m (Mat4 c0 c1 c2 c3) = Mat4 (mat_vec m c0) (mat_vec m c1) (mat_vec m c2) (mat_vec m c3)"

text \<open>\<open>glm::scale(v)\<close> and \<open>glm::translate(v)\<close> of \<open>glm/gtx/transform.hpp\<close>.\<close>

fun glm_scale :: "vec3 \<Rightarrow> mat4" where
  "glm_scale (Vec3 x y z) = Mat4 (Vec4 x 0 0 0) (Vec4 0 y 0 0) (Vec4 0 0 z 0) (Vec4 0 0 0 1)"

fun glm_translate :: "vec3 \<Rightarrow> mat4" where
  "glm_translate (Vec3 x y z) = Mat4 (Vec4 1 0 0 0) (Vec4 0 1 0 0) (Vec4 0 0 1 0) (Vec4 x y z 1)"

text \<open>\<open>glm::rotate(angle, v)\<close>: the axis is normalised, \<open>temp = (1 - c) * axis\<close>, and
  \<open>Rotate[i][j]\<close> is row \<open>j\<close> of column \<open>i\<close>.\<close>

definition glm_rotate :: "real \<Rightarrow> vec3 \<Rightarrow> mat4" where
  "glm_rotate angle v =
     (let c = cos angle; s = sin angle;
          axis = glm_normalize v;
          temp = vec3_scale (1 - c) axis
      in Mat4
          (Vec4 (c + vx temp * vx axis) (vx temp * vy axis + s * vz axis)
                (vx temp * vz axis - s * vy axis) 0)
          (Vec4 (vy temp * vx axis - s * vz axis) (c + vy temp * vy axis)
                (vy temp * vz axis + s * vx axis) 0)
          (Vec4 (vz temp * vx axis + s * vy axis) (vz temp * vy axis - s * vx axis)
                (c + vz temp * vz axis) 0)
          (Vec4 0 0 0 1))"

section \<open>SceneManager: state\<close>

text \<open>
  \<open>SceneManager.h\<close> is not among the sources. The two structs are taken from their uses:
  \<open>TEXTURE_INFO\<close> from \<open>CreateGLTexture\<close>, \<open>OBJECT_MATERIAL\<close> from \<open>FindMaterial\<close> and
  the initialisers of \<open>SetupMaterials\<close> (strength, ambient, diffuse, specular,
  shininess, tag).
\<close>

record TEXTURE_INFO =
  ID :: nat
  tag :: string

record OBJECT_MATERIAL =
  ambientStrength :: real
  ambientColor :: vec3
  diffuseColor :: vec3
  specularColor :: vec3
  shininess :: real
  material_tag :: string

text \<open>
  The shader manager and the mesh library are outside the repository. What the scene
  manager does to them is recorded as the sequence of calls it issues: a typed uniform
  write (\<open>setIntValue\<close>, \<open>setFloatValue\<close>, \<open>setVec2Value\<close>, \<open>setVec3Value\<close>,
  \<open>setVec4Value\<close>, \<open>setMat4Value\<close>, \<open>setSampler2DValue\<close>) or the draw of a mesh.
\<close>

datatype mesh = Plane | Box | Cylinder | TaperedCylinder | Cone | Sphere

datatype uniform_value =
    IntValue int
  | FloatValue real
  | Vec2Value real real
  | Vec3Value vec3
  | Vec4Value vec4
  | Mat4Value mat4
  | Sampler2DValue int

datatype gl_call = SetUniform string uniform_value | DrawMesh mesh

datatype error = NullPointerDereference | ArrayIndexOutOfBounds

text \<open>
  \<open>m_pShaderManager\<close> is a pointer: \<open>has_shader\<close> says that it is not \<open>NULL\<close>.
  \<open>m_textureIDs\<close> holds the registered entries \<open>m_textureIDs[0 .. m_loadedTextures - 1]\<close>
  of the source's array, so \<open>m_loadedTextures\<close> is its length. \<open>uninit_material\<close> is the
  indeterminate content of the uninitialised local \<open>OBJECT_MATERIAL material\<close> of
  \<open>SetShaderMaterial\<close>. \<open>gl_calls\<close> is the sequence of calls issued so far, oldest first.
\<close>

record SceneManager =
  has_shader :: bool
  m_textureIDs :: "TEXTURE_INFO list"
  m_objectMaterials :: "OBJECT_MATERIAL list"
  uninit_material :: OBJECT_MATERIAL
  gl_calls :: "gl_call list"

definition m_loadedTextures :: "SceneManager \<Rightarrow> nat" where
  "m_loadedTextures s = length (m_textureIDs s)"

text \<open>Modelled from the spec: the capacity of the array \<open>m_textureIDs\<close>, declared in the
  missing header (\<open>an ordered, bounded table (capacity 16)\<close>).\<close>

definition texture_capacity :: nat where
  "texture_capacity = 16"

section \<open>SceneManager: lookups\<close>

text \<open>\<open>FindMaterial\<close>, lines 213-240. The loop variables are \<open>index\<close>, \<open>bFound\<close> and the
  out-parameter \<open>material\<close>.\<close>

function FindMaterial_loop ::
  "OBJECT_MATERIAL list \<Rightarrow> string \<Rightarrow> nat \<Rightarrow> bool \<Rightarrow> OBJECT_MATERIAL \<Rightarrow> OBJECT_MATERIAL" where
  "FindMaterial_loop mats t index bFound material =
     (if index < length mats \<and> bFound = False then
        (if material_tag (mats ! index) = t then
           FindMaterial_loop mats t index True
             (material\<lparr>ambientColor := ambientColor (mats ! index),
                       ambientStrength := ambientStrength (mats ! index),
                       diffuseColor := diffuseColor (mats ! index),
                       specularColor := specularColor (mats ! index),
                       shininess := shininess (mats ! index)\<rparr>)
         else FindMaterial_loop mats t (index + 1) bFound material)
      else material)"
  by pat_completeness auto
termination
  by (relation "measure (\<lambda>(mats, t, index, bFound, material).
        2 * (length mats - index) + (if bFound then 0 else 1))") auto

declare FindMaterial_loop.simps [simp del]

definition FindMaterial ::
  "SceneManager \<Rightarrow> string \<Rightarrow> OBJECT_MATERIAL \<Rightarrow> bool \<times> OBJECT_MATERIAL" where
  "FindMaterial s t material =
     (if length (m_objectMaterials s) = 0 then (False, material)
      else (True, FindMaterial_loop (m_objectMaterials s) t 0 False material))"

text \<open>\<open>FindTextureSlot\<close>, lines 187-205. The loop variables are \<open>textureSlot\<close>,
  \<open>index\<close> and \<open>bFound\<close>; the loop reads entries below \<open>m_loadedTextures\<close> only.\<close>

function FindTextureSlot_loop ::
  "TEXTURE_INFO list \<Rightarrow> string \<Rightarrow> int \<Rightarrow> nat \<Rightarrow> bool \<Rightarrow> int" where
  "FindTextureSlot_loop texs t textureSlot index bFound =
     (if index < length texs \<and> bFound = False then
        (if tag (texs ! index) = t then FindTextureSlot_loop texs t (int index) index True
         else FindTextureSlot_loop texs t textureSlot (index + 1) bFound)
      else textureSlot)"
  by pat_completeness auto
termination
  by (relation "measure (\<lambda>(texs, t, textureSlot, index, bFound).
        2 * (length texs - index) + (if bFound then 0 else 1))") auto

declare FindTextureSlot_loop.simps [simp del]

definition FindTextureSlot :: "SceneManager \<Rightarrow> string \<Rightarrow> int" where
  "FindTextureSlot s t = FindTextureSlot_loop (m_textureIDs s) t (- 1) 0 False"

section \<open>SceneManager: texture registration\<close>

text \<open>
  \<open>CreateGLTexture\<close>, lines 60-124. Image decoding and OpenGL are outside the repository:
  \<open>img\<close> is what \<open>stbi_load\<close> returns for the file (nothing, or width, height and
  channel count) and \<open>textureID\<close> is the handle \<open>glGenTextures\<close> yields. The registry
  write of lines 113-115 is a store into the array at index \<open>m_loadedTextures\<close>, out of
  bounds once the array is full.
\<close>

definition CreateGLTexture ::
  "(int \<times> int \<times> int) option \<Rightarrow> nat \<Rightarrow> string \<Rightarrow> SceneManager \<Rightarrow> error + (bool \<times> SceneManager)" where
  "CreateGLTexture img textureID t s =
     (case img of
        Some (width, height, colorChannels) \<Rightarrow>
          if colorChannels = 3 \<or> colorChannels = 4 then
            (if m_loadedTextures s < texture_capacity then
               Inr (True, s\<lparr>m_textureIDs := m_textureIDs s @ [\<lparr>ID = textureID, tag = t\<rparr>]\<rparr>)
             else Inl ArrayIndexOutOfBounds)
          else Inr (False, s)
      | None \<Rightarrow> Inr (False, s))"

text \<open>A sequence of calls of \<open>CreateGLTexture\<close> (decoded image, handle, tag), each of which
  returns \<open>true\<close>; \<open>None\<close> when one of them does not.\<close>

fun CreateGLTextures ::
  "((int \<times> int \<times> int) option \<times> nat \<times> string) list \<Rightarrow> SceneManager \<Rightarrow> SceneManager option" where
  "CreateGLTextures [] s = Some s"
| "CreateGLTextures ((img, textureID, t) # cs) s =
     (case CreateGLTexture img textureID t s of
        Inr (True, s') \<Rightarrow> CreateGLTextures cs s'
      | _ \<Rightarrow> None)"

section \<open>SceneManager: shader parameters\<close>

text \<open>A call on the shader manager or the mesh library appends to the record of calls.\<close>

definition issue :: "gl_call \<Rightarrow> SceneManager \<Rightarrow> SceneManager" where
  "issue c s = s\<lparr>gl_calls := gl_calls s @ [c]\<rparr>"

definition g_ModelName :: string where "g_ModelName = ''model''"
definition g_TextureValueName :: string where "g_TextureValueName = ''objectTexture''"
definition g_UseTextureName :: string where "g_UseTextureName = ''bUseTexture''"

text \<open>The matrix \<open>modelView\<close> of \<open>SetTransformations\<close>, lines 264-272; the C++ product
  associates to the left.\<close>

definition modelView :: "vec3 \<Rightarrow> real \<Rightarrow> real \<Rightarrow> real \<Rightarrow> vec3 \<Rightarrow> mat4" where
  "modelView scaleXYZ XrotationDegrees YrotationDegrees ZrotationDegrees positionXYZ =
     (let scale = glm_scale scaleXYZ;
          rotationX = glm_rotate (glm_radians XrotationDegrees) (Vec3 1 0 0);
          rotationY = glm_rotate (glm_radians YrotationDegrees) (Vec3 0 1 0);
          rotationZ = glm_rotate (glm_radians ZrotationDegrees) (Vec3 0 0 1);
          translation = glm_translate positionXYZ
      in mat_mul (mat_mul (mat_mul (mat_mul translation rotationX) rotationY) rotationZ) scale)"

definition SetTransformations ::
  "vec3 \<Rightarrow> real \<Rightarrow> real \<Rightarrow> real \<Rightarrow> vec3 \<Rightarrow> SceneManager \<Rightarrow> SceneManager" where
  "SetTransformations scaleXYZ XrotationDegrees YrotationDegrees ZrotationDegrees positionXYZ s =
     (if has_shader s then
        issue (SetUniform g_ModelName (Mat4Value
          (modelView scaleXYZ XrotationDegrees YrotationDegrees ZrotationDegrees positionXYZ))) s
      else s)"


definition SetShaderTexture :: "string \<Rightarrow> SceneManager \<Rightarrow> SceneManager" where
  "SetShaderTexture textureTag s =
     (if has_shader s then
        (let s1 = issue (SetUniform g_UseTextureName (IntValue 1)) s;
             textureID = FindTextureSlot s1 textureTag
         in issue (SetUniform g_TextureValueName (Sampler2DValue textureID)) s1)
      else s)"

definition SetTextureUVScale :: "real \<Rightarrow> real \<Rightarrow> SceneManager \<Rightarrow> SceneManager" where
  "SetTextureUVScale u v s =
     (if has_shader s then issue (SetUniform ''UVscale'' (Vec2Value u v)) s else s)"

text \<open>\<open>SetShaderMaterial\<close>, lines 346-364: the five writes go through \<open>m_pShaderManager\<close>
  with no test for \<open>NULL\<close>.\<close>

definition SetShaderMaterial :: "string \<Rightarrow> SceneManager \<Rightarrow> error + SceneManager" where
  "SetShaderMaterial materialTag s =
     (if length (m_objectMaterials s) > 0 then
        (let (bReturn, material) = FindMaterial s materialTag (uninit_material s)
         in if bReturn = True then
              (if has_shader s then
                 Inr (issue (SetUniform ''material.shininess'' (FloatValue (shininess material)))
                     (issue (SetUniform ''material.specularColor'' (Vec3Value (specularColor material)))
                     (issue (SetUniform ''material.diffuseColor'' (Vec3Value (diffuseColor material)))
                     (issue (SetUniform ''material.ambientStrength'' (FloatValue (ambientStrength material)))
                     (issue (SetUniform ''material.ambientColor'' (Vec3Value (ambientColor material))) s)))))
               else Inl NullPointerDereference)
            else Inr s)
      else Inr s)"

text \<open>\<open>SetupMaterials\<close>, lines 398-451.\<close>

definition SetupMaterials :: "SceneManager \<Rightarrow> SceneManager" where
  "SetupMaterials s =
     (let steel = \<lparr>ambientStrength = 0.2, ambientColor = Vec3 0.2 0.2 0.2,
            diffuseColor = Vec3 0.7 0.7 0.7, specularColor = Vec3 1 1 1,
            shininess = 64, material_tag = ''steel''\<rparr>;
          plastic = \<lparr>ambientStrength = 0.1, ambientColor = Vec3 0.1 0.1 0.1,
            diffuseColor = Vec3 0.5 0.5 0.5, specularColor = Vec3 0.3 0.3 0.3,
            shininess = 8, material_tag = ''plastic''\<rparr>;
          darkplastic = \<lparr>ambientStrength = 0.1, ambientColor = Vec3 0.05 0.05 0.05,
            diffuseColor = Vec3 0.2 0.2 0.2, specularColor = Vec3 0.2 0.2 0.2,
            shininess = 4, material_tag = ''darkplastic''\<rparr>;
          gold = \<lparr>ambientStrength = 0.25, ambientColor = Vec3 0.3 0.3 0.3,
            diffuseColor = Vec3 0.6 0.6 0.6, specularColor = Vec3 1 1 1,
            shininess = 64, material_tag = ''gold''\<rparr>;
          burntsand = \<lparr>ambientStrength = 0.1, ambientColor = Vec3 0.2 0.2 0.2,
            diffuseColor = Vec3 0.45 0.45 0.45, specularColor = Vec3 0.2 0.2 0.2,
            shininess = 8, material_tag = ''burntsand''\<rparr>
      in s\<lparr>m_objectMaterials := [] @ [steel] @ [plastic] @ [darkplastic] @ [gold] @ [burntsand]\<rparr>)"

text \<open>The draw methods of the mesh library.\<close>

definition DrawPlaneMesh :: "SceneManager \<Rightarrow> SceneManager" where
  "DrawPlaneMesh = issue (DrawMesh Plane)"
definition DrawBoxMesh :: "SceneManager \<Rightarrow> SceneManager" where
  "DrawBoxMesh = issue (DrawMesh Box)"
definition DrawCylinderMesh :: "SceneManager \<Rightarrow> SceneManager" where
  "DrawCylinderMesh = issue (DrawMesh Cylinder)"
definition DrawTaperedCylinderMesh :: "SceneManager \<Rightarrow> SceneManager" where
  "DrawTaperedCylinderMesh = issue (DrawMesh TaperedCylinder)"
definition DrawConeMesh :: "SceneManager \<Rightarrow> SceneManager" where
  "DrawConeMesh = issue (DrawMesh Cone)"
definition DrawSphereMesh :: "SceneManager \<Rightarrow> SceneManager" where
  "DrawSphereMesh = issue (DrawMesh Sphere)"

section \<open>SceneManager: the scene\<close>

text \<open>
  \<open>RenderScene\<close>, lines 499-720, is a straight line of calls: the list \<open>scene_steps\<close>,
  in the order of the source. A step either continues with a new state or stops with an
  error; \<open>seq\<close> runs steps in order until one stops.
\<close>

definition ok :: "(SceneManager \<Rightarrow> SceneManager) \<Rightarrow> SceneManager \<Rightarrow> error + SceneManager" where
  "ok f s = Inr (f s)"

fun seq :: "(SceneManager \<Rightarrow> error + SceneManager) list \<Rightarrow> SceneManager \<Rightarrow> error + SceneManager" where
  "seq [] s = Inr s"
| "seq (f # fs) s = (case f s of Inl e \<Rightarrow> Inl e | Inr s' \<Rightarrow> seq fs s')"

text \<open>The lamp, lines 535-616. The source computes the offsets of the elbow from the
  lower arm in three lines (551-553) from \<open>lowerArmLength\<close>, \<open>xRot\<close> and \<open>yRotElbow\<close>;
  they are functions of these three here.\<close>

definition arm_dx :: "real \<Rightarrow> real \<Rightarrow> real \<Rightarrow> real" where
  "arm_dx lowerArmLength xRot yRotElbow =
     (let lowerArmAngleRad = glm_radians (- xRot);
          lowerArmYRotRad = glm_radians yRotElbow
      in lowerArmLength * sin lowerArmAngleRad * cos lowerArmYRotRad)"

definition arm_dy :: "real \<Rightarrow> real \<Rightarrow> real \<Rightarrow> real" where
  "arm_dy lowerArmLength xRot yRotElbow =
     (let lowerArmAngleRad = glm_radians (- xRot)
      in lowerArmLength * cos lowerArmAngleRad)"

definition arm_dz :: "real \<Rightarrow> real \<Rightarrow> real \<Rightarrow> real" where
  "arm_dz lowerArmLength xRot yRotElbow =
     (let lowerArmAngleRad = glm_radians (- xRot);
          lowerArmYRotRad = glm_radians yRotElbow
      in lowerArmLength * sin lowerArmAngleRad * sin lowerArmYRotRad)"

definition lowerArmLength :: real where "lowerArmLength = 2.2"
definition lowerArm_xRot :: real where "lowerArm_xRot = - 50"
definition lowerArm_pos :: vec3 where "lowerArm_pos = Vec3 (- 8) 2 0"
definition elbowOffset :: real where "elbowOffset = - 0.9"
definition yRotElbow :: real where "yRotElbow = 0"

definition elbowX :: real where
  "elbowX = vx lowerArm_pos + arm_dx lowerArmLength lowerArm_xRot yRotElbow + elbowOffset"
definition elbowY :: real where
  "elbowY = vy lowerArm_pos + arm_dy lowerArmLength lowerArm_xRot yRotElbow"
definition elbowZ :: real where
  "elbowZ = vz lowerArm_pos + arm_dz lowerArmLength lowerArm_xRot yRotElbow"
definition elbow_pos :: vec3 where "elbow_pos = Vec3 elbowX elbowY elbowZ"

definition upperArmLength :: real where "upperArmLength = 2.0"
definition upperArm_xRot :: real where "upperArm_xRot = - 25"
definition upperArm_yRot :: real where "upperArm_yRot = 90"

definition upperX :: real where
  "upperX = vx elbow_pos + upperArmLength * sin (glm_radians (- upperArm_xRot))"
definition upperY :: real where
  "upperY = vy elbow_pos + upperArmLength * cos (glm_radians (- upperArm_xRot))"
definition head_pos :: vec3 where "head_pos = Vec3 upperX upperY (vz elbow_pos)"

definition neckLength :: real where "neckLength = 0.7"
definition neck_xRot :: real where "neck_xRot = - 50"
definition neckStart :: vec3 where "neckStart = head_pos"

definition shadeX :: real where
  "shadeX = vx neckStart + neckLength * sin (glm_radians (- neck_xRot))"
definition shadeY :: real where
  "shadeY = vy neckStart + neckLength * cos (glm_radians (- neck_xRot))"

text \<open>The laptop and the cup, lines 618-667.\<close>

definition laptopPos :: vec3 where "laptopPos = Vec3 0 (- 0.1 + 0.13 / 2) 0"
definition laptopScale :: vec3 where "laptopScale = Vec3 7 0.13 4.5"
definition lidScale :: vec3 where "lidScale = Vec3 6.9 0.10 4.4"
definition lidPos :: vec3 where
  "lidPos = vec3_add laptopPos (Vec3 0 ((vy laptopScale + vy lidScale) / 2) 0)"

definition cupPos :: vec3 where "cupPos = Vec3 4.5 (- 0.1 + 0.0 / 2) 0.3"
definition cupScale :: vec3 where "cupScale = Vec3 0.42 0.95 0.42"
definition rimScale :: vec3 where "rimScale = Vec3 0.48 0.09 0.48"
definition rimPos :: vec3 where "rimPos = vec3_add cupPos (Vec3 0 0.94 0)"

definition mugRadius :: real where "mugRadius = vx cupScale / 2"
definition handleRadius :: real where "handleRadius = mugRadius * 0.8"
definition mugCenterY :: real where "mugCenterY = vy cupPos + (vy cupScale / 2)"
definition segmentLength :: real where "segmentLength = 0.13"
definition segmentRadius :: real where "segmentRadius = 0.07"
definition handleSegments :: nat where "handleSegments = 7"
definition handleCenterX :: real where
  "handleCenterX = vx cupPos + mugRadius + handleRadius + segmentRadius * 0.72"

text \<open>The body of the handle loop, lines 670-690, for the loop counter \<open>i\<close>: its calls
  \<open>segment_steps\<close>, run in order.\<close>

definition segment_steps :: "nat \<Rightarrow> (SceneManager \<Rightarrow> error + SceneManager) list" where
  "segment_steps i =
     (let t = real i / real (handleSegments - 1);
          angle = glm_radians (- 90 + t * 180);
          x = handleCenterX + handleRadius * cos angle;
          y = mugCenterY + handleRadius * sin angle;
          z = vz cupPos;
          zRot = glm_degrees angle
      in [ok (SetTransformations (Vec3 segmentRadius segmentLength segmentRadius) 0 0 zRot (Vec3 x y z)),
          ok (SetShaderTexture ''plastic''),
          ok (SetTextureUVScale 1 1),
          SetShaderMaterial ''plastic'',
          ok DrawCylinderMesh])"

definition handle_segment :: "nat \<Rightarrow> SceneManager \<Rightarrow> error + SceneManager" where
  "handle_segment i = seq (segment_steps i)"

text \<open>The loop \<open>for (int i = 0; i < handleSegments; ++i)\<close>, line 669.\<close>

function handle_loop :: "nat \<Rightarrow> SceneManager \<Rightarrow> error + SceneManager" where
  "handle_loop i s =
     (if i < handleSegments then
        (case handle_segment i s of Inl e \<Rightarrow> Inl e | Inr s' \<Rightarrow> handle_loop (i + 1) s')
      else Inr s)"
  by pat_completeness auto
termination
  by (relation "measure (\<lambda>(i, s). handleSegments - i)") auto

declare handle_loop.simps [simp del]

definition scene_steps :: "(SceneManager \<Rightarrow> error + SceneManager) list" where
  "scene_steps =
    [\<comment> \<open>World Plane\<close>
     ok (SetTransformations (Vec3 100 1 100) 0 0 0 (Vec3 0 (- 0.3) 0)),
     SetShaderMaterial ''burntsand'',
     ok DrawPlaneMesh,
     \<comment> \<open>Desk\<close>
     ok (SetTransformations (Vec3 25 0.4 8) 0 0 0 (Vec3 0 (- 0.3) 0)),
     ok (SetShaderTexture ''wood''),
     ok (SetTextureUVScale 2.5 1.5),
     ok DrawBoxMesh,
     \<comment> \<open>Lamp Base\<close>
     ok (SetTransformations (Vec3 1.5 0.3 1.5) 0 0 0 (Vec3 (- 8) 0.6 0)),
     ok (SetShaderTexture ''stainless''),
     ok (SetTextureUVScale 3 3),
     ok DrawCylinderMesh,
     \<comment> \<open>Lamp Base Post\<close>
     ok (SetTransformations (Vec3 0.3 1 0.3) 0 0 0 (Vec3 (- 8) 1 0)),
     ok (SetShaderTexture ''darkplastic''),
     ok (SetTextureUVScale 1 1),
     ok DrawCylinderMesh,
     \<comment> \<open>Lamp Lower Arm\<close>
     ok (SetTransformations (Vec3 0.15 lowerArmLength 0.15) lowerArm_xRot 0 0 lowerArm_pos),
     SetShaderMaterial ''darkplastic'',
     ok DrawTaperedCylinderMesh,
     \<comment> \<open>Lamp Elbow Joint\<close>
     ok (SetTransformations (Vec3 0.25 0.25 0.25) 0 0 0 elbow_pos),
     ok (SetShaderTexture ''plastic''),
     ok (SetTextureUVScale 1 1),
     ok DrawSphereMesh,
     \<comment> \<open>Lamp Upper Arm\<close>
     ok (SetTransformations (Vec3 0.15 upperArmLength 0.15) upperArm_xRot upperArm_yRot 0 elbow_pos),
     ok (SetShaderTexture ''darkplastic''),
     ok (SetTextureUVScale 1 1),
     SetShaderMaterial ''darkplastic'',
     ok DrawTaperedCylinderMesh,
     \<comment> \<open>Lamp Head Joint\<close>
     ok (SetTransformations (Vec3 0.25 0.25 0.25) 0 0 0 head_pos),
     ok (SetShaderTexture ''plastic''),
     ok (SetTextureUVScale 1 1),
     ok DrawSphereMesh,
     \<comment> \<open>Lamp Neck\<close>
     ok (SetTransformations (Vec3 0.12 neckLength 0.12) neck_xRot 0 0 neckStart),
     SetShaderMaterial ''darkplastic'',
     ok DrawCylinderMesh,
     \<comment> \<open>Lamp Shade\<close>
     ok (SetTransformations (Vec3 1.2 0.8 1.2) 220 0 0 (Vec3 shadeX shadeY (vz neckStart))),
     ok (SetShaderTexture ''stainless''),
     ok (SetTextureUVScale 1 1),
     ok DrawConeMesh,
     \<comment> \<open>Lamp Bulb\<close>
     ok (SetTransformations (Vec3 0.2 0.2 0.2) 0 0 0 (Vec3 shadeX (shadeY + 0.2) (vz neckStart))),
     ok (SetShaderTexture ''gold''),
     ok (SetTextureUVScale 1 1),
     SetShaderMaterial ''gold'',
     ok DrawSphereMesh,
     \<comment> \<open>Laptop base\<close>
     ok (SetTransformations laptopScale 0 0 0 laptopPos),
     ok (SetShaderTexture ''darkplastic''),
     ok (SetTextureUVScale 2 1.5),
     SetShaderMaterial ''darkplastic'',
     ok DrawBoxMesh,
     \<comment> \<open>Laptop lid\<close>
     ok (SetTransformations lidScale 0 0 0 lidPos),
     ok (SetShaderTexture ''stainless''),
     ok (SetTextureUVScale 2 1.5),
     SetShaderMaterial ''steel'',
     ok DrawBoxMesh,
     \<comment> \<open>Cup body\<close>
     ok (SetTransformations cupScale 0 0 0 cupPos),
     ok (SetShaderTexture ''plastic''),
     ok (SetTextureUVScale 1 1),
     SetShaderMaterial ''plastic'',
     ok DrawCylinderMesh,
     \<comment> \<open>Cup rim\<close>
     ok (SetTransformations rimScale 180 0 0 rimPos),
     ok (SetShaderTexture ''stainless''),
     ok (SetTextureUVScale 2 1.5),
     SetShaderMaterial ''steel'',
     ok DrawTaperedCylinderMesh,
     \<comment> \<open>Cup handle\<close>
     handle_loop 0,
     \<comment> \<open>Book 1\<close>
     ok (SetTransformations (Vec3 0.50 2.17 1.62) 0 0 (- 8) (Vec3 5.90 (- 0.1 + 0.95 / 2) 1)),
     ok (SetShaderTexture ''darkplastic''),
     ok (SetTextureUVScale 0.5 1),
     SetShaderMaterial ''darkplastic'',
     ok DrawBoxMesh,
     \<comment> \<open>Book 2\<close>
     ok (SetTransformations (Vec3 0.47 1.67 1.37) 0 0 0 (Vec3 6.5 (- 0.1 + 0.95 / 2) 1)),
     ok (SetShaderTexture ''plastic''),
     ok (SetTextureUVScale 0.5 1),
     SetShaderMaterial ''plastic'',
     ok DrawBoxMesh,
     \<comment> \<open>Book 3\<close>
     ok (SetTransformations (Vec3 1.37 0.45 2.27) 0 (- 90) 0 (Vec3 7.89 (- 0.1 + 0.18 / 2) 0.98)),
     ok (SetShaderTexture ''gold''),
     ok (SetTextureUVScale 0.7 1),
     SetShaderMaterial ''gold'',
     ok DrawBoxMesh]"

definition RenderScene :: "SceneManager \<Rightarrow> error + SceneManager" where
  "RenderScene = seq scene_steps"

text \<open>
  Reading a record of calls: the meshes drawn, in order; the calls a step added; and the
  uniform values in force at each draw, from the values \<open>u\<close> in force before the first
  call (a uniform keeps its value until it is written again).
\<close>

fun drawn :: "gl_call list \<Rightarrow> mesh list" where
  "drawn [] = []"
| "drawn (SetUniform n v # cs) = drawn cs"
| "drawn (DrawMesh m # cs) = m # drawn cs"

definition issued :: "SceneManager \<Rightarrow> SceneManager \<Rightarrow> gl_call list" where
  "issued s s' = drop (length (gl_calls s)) (gl_calls s')"

fun draw_states ::
  "(string \<Rightarrow> uniform_value option) \<Rightarrow> gl_call list \<Rightarrow> (mesh \<times> (string \<Rightarrow> uniform_value option)) list" where
  "draw_states u [] = []"
| "draw_states u (SetUniform n v # cs) = draw_states (u(n \<mapsto> v)) cs"
| "draw_states u (DrawMesh m # cs) = (m, u) # draw_states u cs"

fun final_uniforms ::
  "(string \<Rightarrow> uniform_value option) \<Rightarrow> gl_call list \<Rightarrow> (string \<Rightarrow> uniform_value option)" where
  "final_uniforms u [] = u"
| "final_uniforms u (SetUniform n v # cs) = final_uniforms (u(n \<mapsto> v)) cs"
| "final_uniforms u (DrawMesh m # cs) = final_uniforms u cs"

text \<open>The place of a mesh: where its model matrix takes the origin of the mesh; and the
  place of the \<open>k\<close>-th draw of a record of calls (counted from 0), from the uniform
  \<open>model\<close> in force at that draw.\<close>

definition mat_origin :: "mat4 \<Rightarrow> vec3" where
  "mat_origin M = (case mat_vec M (Vec4 0 0 0 1) of Vec4 x y z w \<Rightarrow> Vec3 x y z)"

definition placed_at :: "nat \<Rightarrow> gl_call list \<Rightarrow> vec3 option" where
  "placed_at k cs =
     (if k < length (draw_states Map.empty cs) then
        (case snd (draw_states Map.empty cs ! k) ''model'' of
           Some (Mat4Value M) \<Rightarrow> Some (mat_origin M)
         | _ \<Rightarrow> None)
      else None)"

text \<open>The calls of the solid-colour path of \<open>SetShaderColor\<close>: \<open>bUseTexture\<close> set to 0,
  or any write of \<open>objectColor\<close>.\<close>

fun solid_color_call :: "gl_call \<Rightarrow> bool" where
  "solid_color_call (SetUniform n v) =
     ((n = ''bUseTexture'' \<and> v = IntValue 0) \<or> n = ''objectColor'')"
| "solid_color_call (DrawMesh m) = False"

text \<open>The rotation about a world axis by an angle in radians, and the forward
  kinematics of the specification: the tip of a segment of length \<open>L\<close> with base \<open>p\<close>,
  rotated by \<open>\<alpha>\<close> degrees about X and \<open>\<beta>\<close> degrees about Y.\<close>

definition rotation_x :: "real \<Rightarrow> mat4" where
  "rotation_x a =
     Mat4 (Vec4 1 0 0 0) (Vec4 0 (cos a) (sin a) 0) (Vec4 0 (- sin a) (cos a) 0) (Vec4 0 0 0 1)"

definition rotation_y :: "real \<Rightarrow> mat4" where
  "rotation_y a =
     Mat4 (Vec4 (cos a) 0 (- sin a) 0) (Vec4 0 1 0 0) (Vec4 (sin a) 0 (cos a) 0) (Vec4 0 0 0 1)"

definition rotation_z :: "real \<Rightarrow> mat4" where
  "rotation_z a =
     Mat4 (Vec4 (cos a) (sin a) 0 0) (Vec4 (- sin a) (cos a) 0 0) (Vec4 0 0 1 0) (Vec4 0 0 0 1)"

definition forward_kinematics :: "vec3 \<Rightarrow> real \<Rightarrow> real \<Rightarrow> real \<Rightarrow> vec3" where
  "forward_kinematics p L \<alpha> \<beta> =
     vec3_add p (Vec3 (L * sin (glm_radians (- \<alpha>)) * cos (glm_radians \<beta>))
                      (L * cos (glm_radians (- \<alpha>)))
                      (L * sin (glm_radians (- \<alpha>)) * sin (glm_radians \<beta>)))"

text \<open>
  Devices of the proofs below. \<open>emit cs s\<close> is the state \<open>s\<close> after the further calls
  \<open>cs\<close>; \<open>calls_of s f\<close> is what the step \<open>f\<close> issues from \<open>s\<close>; \<open>emitter s f cs\<close> says
  that \<open>f\<close>, run after any calls issued from \<open>s\<close>, succeeds and adds exactly \<open>cs\<close>.
  \<open>uniform_at_draw k n cur cs\<close> follows the single uniform \<open>n\<close>, now \<open>cur\<close>, up to the
  \<open>k\<close>-th draw of \<open>cs\<close>, and \<open>uniform_at_end\<close> to the end of \<open>cs\<close>.
\<close>

definition emit :: "gl_call list \<Rightarrow> SceneManager \<Rightarrow> SceneManager" where
  "emit cs s = s\<lparr>gl_calls := gl_calls s @ cs\<rparr>"

definition calls_of :: "SceneManager \<Rightarrow> (SceneManager \<Rightarrow> error + SceneManager) \<Rightarrow> gl_call list" where
  "calls_of s f = (case f s of Inr s' \<Rightarrow> issued s s' | Inl e \<Rightarrow> [])"

definition emitter ::
  "SceneManager \<Rightarrow> (SceneManager \<Rightarrow> error + SceneManager) \<Rightarrow> gl_call list \<Rightarrow> bool" where
  "emitter s f cs = (\<forall>acc. f (emit acc s) = Inr (emit (acc @ cs) s))"

definition emits :: "SceneManager \<Rightarrow> (SceneManager \<Rightarrow> error + SceneManager) \<Rightarrow> bool" where
  "emits s f = emitter s f (calls_of s f)"

definition model_call :: "vec3 \<Rightarrow> real \<Rightarrow> real \<Rightarrow> real \<Rightarrow> vec3 \<Rightarrow> gl_call" where
  "model_call sc rx ry rz p = SetUniform ''model'' (Mat4Value (modelView sc rx ry rz p))"

definition material_calls :: "SceneManager \<Rightarrow> string \<Rightarrow> gl_call list" where
  "material_calls s t =
     (let material = snd (FindMaterial s t (uninit_material s))
      in [SetUniform ''material.ambientColor'' (Vec3Value (ambientColor material)),
          SetUniform ''material.ambientStrength'' (FloatValue (ambientStrength material)),
          SetUniform ''material.diffuseColor'' (Vec3Value (diffuseColor material)),
          SetUniform ''material.specularColor'' (Vec3Value (specularColor material)),
          SetUniform ''material.shininess'' (FloatValue (shininess material))])"

fun uniform_at_draw ::
  "nat \<Rightarrow> string \<Rightarrow> uniform_value option \<Rightarrow> gl_call list \<Rightarrow> uniform_value option" where
  "uniform_at_draw k n cur [] = None"
| "uniform_at_draw k n cur (SetUniform n' v # cs) =
     uniform_at_draw k n (if n' = n then Some v else cur) cs"
| "uniform_at_draw k n cur (DrawMesh m # cs) =
     (if k = 0 then cur else uniform_at_draw (k - 1) n cur cs)"

fun uniform_at_end ::
  "string \<Rightarrow> uniform_value option \<Rightarrow> gl_call list \<Rightarrow> uniform_value option" where
  "uniform_at_end n cur [] = cur"
| "uniform_at_end n cur (SetUniform n' v # cs) =
     uniform_at_end n (if n' = n then Some v else cur) cs"
| "uniform_at_end n cur (DrawMesh m # cs) = uniform_at_end n cur cs"

definition entry_of :: "(int \<times> int \<times> int) option \<times> nat \<times> string \<Rightarrow> TEXTURE_INFO" where
  "entry_of c = \<lparr>ID = fst (snd c), tag = snd (snd c)\<rparr>"

text \<open>Concrete states for the evaluations below: a scene manager with a shader manager,
  no texture, no material and no call yet; the same after \<open>SetupMaterials\<close> and five
  textures loaded under the tags of \<open>LoadSceneTextures\<close> (lines 482-486).\<close>

definition no_material :: OBJECT_MATERIAL where
  "no_material = \<lparr>ambientStrength = 0, ambientColor = Vec3 0 0 0, diffuseColor = Vec3 0 0 0,
     specularColor = Vec3 0 0 0, shininess = 0, material_tag = []\<rparr>"

definition new_scene :: SceneManager where
  "new_scene = \<lparr>has_shader = True, m_textureIDs = [], m_objectMaterials = [],
     uninit_material = no_material, gl_calls = []\<rparr>"

definition scene_textures :: "((int \<times> int \<times> int) option \<times> nat \<times> string) list" where
  "scene_textures =
     [(Some (512, 512, 3), 1, ''stainless''),
      (Some (512, 512, 3), 2, ''gold''),
      (Some (512, 512, 3), 3, ''wood''),
      (Some (512, 512, 3), 4, ''plastic''),
      (Some (512, 512, 3), 5, ''darkplastic'')]"

definition prepared_scene :: SceneManager where
  "prepared_scene =
     (SetupMaterials new_scene)\<lparr>m_textureIDs := map entry_of scene_textures\<rparr>"


text \<open>The rows of a record of calls: each draw with the uniform \<open>model\<close> in force at it,
  from the value \<open>cur\<close> in force before the first call. \<open>handle_row i\<close> is the row of
  segment \<open>i\<close> of the mug handle: a cylinder of scale \<open>(0.07, 0.13, 0.07)\<close>, rotated
  about Z by the angle of the segment on the arc and placed on the arc.\<close>

fun model_rows :: "uniform_value option \<Rightarrow> gl_call list \<Rightarrow> (mesh \<times> uniform_value option) list" where
  "model_rows cur [] = []"
| "model_rows cur (SetUniform n v # cs) = model_rows (if n = ''model'' then Some v else cur) cs"
| "model_rows cur (DrawMesh m # cs) = (m, cur) # model_rows cur cs"

definition row :: "mesh \<Rightarrow> vec3 \<Rightarrow> real \<Rightarrow> real \<Rightarrow> real \<Rightarrow> vec3 \<Rightarrow> mesh \<times> uniform_value option" where
  "row m sc rx ry rz p = (m, Some (Mat4Value (modelView sc rx ry rz p)))"

definition handle_row :: "nat \<Rightarrow> mesh \<times> uniform_value option" where
  "handle_row i =
     row Cylinder (Vec3 0.07 0.13 0.07) 0 0
       (glm_degrees (glm_radians (- 90 + (real i / 6) * 180)))
       (Vec3 (handleCenterX + handleRadius * cos (glm_radians (- 90 + (real i / 6) * 180)))
             (mugCenterY + handleRadius * sin (glm_radians (- 90 + (real i / 6) * 180)))
             0.3)"

text \<open>The scene list of the specification (section 4.2.4), row by row: the mesh of each
  draw with its scale, its three rotation angles and its position. Rows 16 to 22 are the
  seven segments of the mug handle.\<close>

definition scene_rows :: "(mesh \<times> uniform_value option) list" where
  "scene_rows =
     [row Plane (Vec3 100 1 100) 0 0 0 (Vec3 0 (- 0.3) 0),
      row Box (Vec3 25 0.4 8) 0 0 0 (Vec3 0 (- 0.3) 0),
      row Cylinder (Vec3 1.5 0.3 1.5) 0 0 0 (Vec3 (- 8) 0.6 0),
      row Cylinder (Vec3 0.3 1 0.3) 0 0 0 (Vec3 (- 8) 1 0),
      row TaperedCylinder (Vec3 0.15 2.2 0.15) (- 50) 0 0 (Vec3 (- 8) 2 0),
      row Sphere (Vec3 0.25 0.25 0.25) 0 0 0 elbow_pos,
      row TaperedCylinder (Vec3 0.15 2 0.15) (- 25) 90 0 elbow_pos,
      row Sphere (Vec3 0.25 0.25 0.25) 0 0 0 head_pos,
      row Cylinder (Vec3 0.12 0.7 0.12) (- 50) 0 0 head_pos,
      row Cone (Vec3 1.2 0.8 1.2) 220 0 0 (Vec3 shadeX shadeY (vz head_pos)),
      row Sphere (Vec3 0.2 0.2 0.2) 0 0 0 (Vec3 shadeX (shadeY + 0.2) (vz head_pos)),
      row Box (Vec3 7 0.13 4.5) 0 0 0 (Vec3 0 (- 0.035) 0),
      row Box (Vec3 6.9 0.10 4.4) 0 0 0 (Vec3 0 0.08 0),
      row Cylinder (Vec3 0.42 0.95 0.42) 0 0 0 (Vec3 4.5 (- 0.1) 0.3),
      row TaperedCylinder (Vec3 0.48 0.09 0.48) 180 0 0 (Vec3 4.5 0.84 0.3),
      handle_row 0, handle_row 1, handle_row 2, handle_row 3, handle_row 4, handle_row 5,
      handle_row 6,
      row Box (Vec3 0.50 2.17 1.62) 0 0 (- 8) (Vec3 5.9 0.375 1),
      row Box (Vec3 0.47 1.67 1.37) 0 0 0 (Vec3 6.5 0.375 1),
      row Box (Vec3 1.37 0.45 2.27) 0 (- 90) 0 (Vec3 7.89 (- 0.01) 0.98)]"

section \<open>ViewManager\<close>

text \<open>
  The \<open>Camera\<close> class is outside the repository; the record has the fields the view
  manager reads and writes. The state of the view manager is the camera \<open>g_pCamera\<close>
  points to, the file's global variables, the static locals of \<open>ProcessKeyboardEvents\<close>
  (\<open>pPressed\<close>, \<open>oPressed\<close> and the three elements of \<open>viewKeyPressed\<close>) and the close
  flag of the window.
\<close>

record Camera =
  Position :: vec3
  Front :: vec3
  Up :: vec3
  Yaw :: real
  Pitch :: real
  Zoom :: real

record ViewManager =
  g_pCamera :: Camera
  gLastX :: real
  gLastY :: real
  gFirstMouse :: bool
  gDeltaTime :: real
  gLastFrame :: real
  gCameraSpeed :: real
  bOrthographicProjection :: bool
  pPressed :: bool
  oPressed :: bool
  viewKeyPressed_0 :: bool
  viewKeyPressed_1 :: bool
  viewKeyPressed_2 :: bool
  windowShouldClose :: bool

definition WINDOW_WIDTH :: int where "WINDOW_WIDTH = 1000"
definition WINDOW_HEIGHT :: int where "WINDOW_HEIGHT = 800"

text \<open>The constructor, lines 50-62, with the initial values of the globals (lines 31-42)
  and of the static locals. \<open>cam\<close> is the camera \<open>new Camera()\<close> yields.\<close>

definition ViewManager_new :: "Camera \<Rightarrow> ViewManager" where
  "ViewManager_new cam =
     \<lparr>g_pCamera = cam\<lparr>Position := Vec3 0 5 12, Front := Vec3 0 (- 0.5) (- 2),
                        Up := Vec3 0 1 0, Zoom := 80\<rparr>,
      gLastX = real_of_int WINDOW_WIDTH / 2,
      gLastY = real_of_int WINDOW_HEIGHT / 2,
      gFirstMouse = True,
      gDeltaTime = 0,
      gLastFrame = 0,
      gCameraSpeed = 5,
      bOrthographicProjection = False,
      pPressed = False,
      oPressed = False,
      viewKeyPressed_0 = False,
      viewKeyPressed_1 = False,
      viewKeyPressed_2 = False,
      windowShouldClose = False\<rparr>"

text \<open>The front vector from yaw and pitch: the four lines that follow every change of
  yaw and pitch in the source (155-158, 217-221, 238-242, 261-265, 280-284, 299-303).\<close>

definition recalc_front :: "Camera \<Rightarrow> Camera" where
  "recalc_front cam =
     (let front = Vec3 (cos (glm_radians (Yaw cam)) * cos (glm_radians (Pitch cam)))
                       (sin (glm_radians (Pitch cam)))
                       (sin (glm_radians (Yaw cam)) * cos (glm_radians (Pitch cam)))
      in cam\<lparr>Front := glm_normalize front\<rparr>)"

text \<open>\<open>Mouse_Position_Callback\<close>, lines 126-159. \<open>mouse_yoffset\<close> is the value of
  \<open>yoffset\<close> that is added to the pitch at line 145.\<close>

definition mouse_xoffset :: "real \<Rightarrow> ViewManager \<Rightarrow> real" where
  "mouse_xoffset xMousePos s =
     (let lastX = (if gFirstMouse s then xMousePos else gLastX s);
          xoffset = xMousePos - lastX;
          sensitivity = 0.1
      in xoffset * sensitivity)"

definition mouse_yoffset :: "real \<Rightarrow> ViewManager \<Rightarrow> real" where
  "mouse_yoffset yMousePos s =
     (let lastY = (if gFirstMouse s then yMousePos else gLastY s);
          yoffset = lastY - yMousePos;
          sensitivity = 0.1
      in yoffset * sensitivity)"

definition clamp_pitch :: "Camera \<Rightarrow> Camera" where
  "clamp_pitch cam =
     (let cam1 = (if Pitch cam > 89 then cam\<lparr>Pitch := 89\<rparr> else cam)
      in if Pitch cam1 < - 89 then cam1\<lparr>Pitch := - 89\<rparr> else cam1)"

definition Mouse_Position_Callback :: "real \<Rightarrow> real \<Rightarrow> ViewManager \<Rightarrow> ViewManager" where
  "Mouse_Position_Callback xMousePos yMousePos s =
     (let xoffset = mouse_xoffset xMousePos s;
          yoffset = mouse_yoffset yMousePos s;
          cam = g_pCamera s;
          cam = cam\<lparr>Yaw := Yaw cam + xoffset\<rparr>;
          cam = cam\<lparr>Pitch := Pitch cam + yoffset\<rparr>;
          cam = clamp_pitch cam;
          cam = recalc_front cam
      in s\<lparr>gLastX := xMousePos, gLastY := yMousePos, gFirstMouse := False, g_pCamera := cam\<rparr>)"

text \<open>\<open>Scroll_Callback\<close>, lines 161-171.\<close>

definition Scroll_Callback :: "real \<Rightarrow> real \<Rightarrow> ViewManager \<Rightarrow> ViewManager" where
  "Scroll_Callback xoffset yoffset s =
     (let s1 = s\<lparr>gCameraSpeed := gCameraSpeed s + yoffset\<rparr>;
          s2 = (if gCameraSpeed s1 < 1 then s1\<lparr>gCameraSpeed := 1\<rparr> else s1)
      in if gCameraSpeed s2 > 20 then s2\<lparr>gCameraSpeed := 20\<rparr> else s2)"

text \<open>
  \<open>ProcessKeyboardEvents\<close>, lines 179-308. \<open>glfwGetKey\<close> answers \<open>GLFW_PRESS\<close> or
  \<open>GLFW_RELEASE\<close> for a key; \<open>keys k\<close> is true when the answer for \<open>k\<close> in this frame is
  \<open>GLFW_PRESS\<close>. The function is a sequence of blocks, one per group of keys, in the
  order of the source.
\<close>

datatype key = KEY_ESCAPE | KEY_W | KEY_S | KEY_A | KEY_D | KEY_Q | KEY_E
  | KEY_P | KEY_O | KEY_1 | KEY_2 | KEY_3

definition keys_escape :: "(key \<Rightarrow> bool) \<Rightarrow> ViewManager \<Rightarrow> ViewManager" where
  "keys_escape keys s = (if keys KEY_ESCAPE then s\<lparr>windowShouldClose := True\<rparr> else s)"

definition move_by :: "vec3 \<Rightarrow> ViewManager \<Rightarrow> ViewManager" where
  "move_by d s = s\<lparr>g_pCamera := (g_pCamera s)\<lparr>Position := vec3_add (Position (g_pCamera s)) d\<rparr>\<rparr>"

definition keys_move :: "(key \<Rightarrow> bool) \<Rightarrow> ViewManager \<Rightarrow> ViewManager" where
  "keys_move keys s =
     (let cameraSpeed = gCameraSpeed s * gDeltaTime s;
          s1 = (if keys KEY_W
                then move_by (vec3_scale cameraSpeed (Front (g_pCamera s))) s else s);
          s2 = (if keys KEY_S
                then move_by (vec3_scale (- cameraSpeed) (Front (g_pCamera s1))) s1 else s1);
          s3 = (if keys KEY_A
                then move_by (vec3_scale (- cameraSpeed)
                       (glm_normalize (glm_cross (Front (g_pCamera s2)) (Up (g_pCamera s2))))) s2
                else s2);
          s4 = (if keys KEY_D
                then move_by (vec3_scale cameraSpeed
                       (glm_normalize (glm_cross (Front (g_pCamera s3)) (Up (g_pCamera s3))))) s3
                else s3);
          s5 = (if keys KEY_Q
                then move_by (vec3_scale cameraSpeed (Up (g_pCamera s4))) s4 else s4)
      in if keys KEY_E
         then move_by (vec3_scale (- cameraSpeed) (Up (g_pCamera s5))) s5 else s5)"

text \<open>The camera reset shared by the preset blocks: position, yaw and pitch are set and
  the front vector is recomputed.\<close>

definition reset_camera :: "vec3 \<Rightarrow> real \<Rightarrow> real \<Rightarrow> Camera \<Rightarrow> Camera" where
  "reset_camera p yaw pitch cam = recalc_front (cam\<lparr>Position := p, Yaw := yaw, Pitch := pitch\<rparr>)"

text \<open>Line 206: the test that guards the perspective reset.\<close>

definition P_fires :: "(key \<Rightarrow> bool) \<Rightarrow> ViewManager \<Rightarrow> bool" where
  "P_fires keys s = (keys KEY_P \<and> \<not> pPressed s)"

definition keys_P :: "(key \<Rightarrow> bool) \<Rightarrow> ViewManager \<Rightarrow> ViewManager" where
  "keys_P keys s =
     (let s1 = (if P_fires keys s
                then s\<lparr>bOrthographicProjection := False, pPressed := True,
                       g_pCamera := reset_camera (Vec3 0 5 12) (- 90) (- 20) (g_pCamera s)\<rparr>
                else s)
      in if \<not> keys KEY_P then s1\<lparr>pPressed := False\<rparr> else s1)"

definition keys_O :: "(key \<Rightarrow> bool) \<Rightarrow> ViewManager \<Rightarrow> ViewManager" where
  "keys_O keys s =
     (let s1 = (if keys KEY_O \<and> \<not> oPressed s
                then s\<lparr>bOrthographicProjection := True, oPressed := True,
                       g_pCamera := reset_camera (Vec3 0 5 12) (- 90) (- 20) (g_pCamera s)\<rparr>
                else s)
      in if \<not> keys KEY_O then s1\<lparr>oPressed := False\<rparr> else s1)"

definition keys_1 :: "(key \<Rightarrow> bool) \<Rightarrow> ViewManager \<Rightarrow> ViewManager" where
  "keys_1 keys s =
     (let s1 = (if keys KEY_1 \<and> \<not> viewKeyPressed_0 s
                then s\<lparr>bOrthographicProjection := True, viewKeyPressed_0 := True,
                       g_pCamera := reset_camera (Vec3 0 5 12) (- 90) (- 20) (g_pCamera s)\<rparr>
                else s)
      in if \<not> keys KEY_1 then s1\<lparr>viewKeyPressed_0 := False\<rparr> else s1)"

definition keys_2 :: "(key \<Rightarrow> bool) \<Rightarrow> ViewManager \<Rightarrow> ViewManager" where
  "keys_2 keys s =
     (let s1 = (if keys KEY_2 \<and> \<not> viewKeyPressed_1 s
                then s\<lparr>bOrthographicProjection := True, viewKeyPressed_1 := True,
                       g_pCamera := reset_camera (Vec3 0 15 0) (- 90) (- 89.9) (g_pCamera s)\<rparr>
                else s)
      in if \<not> keys KEY_2 then s1\<lparr>viewKeyPressed_1 := False\<rparr> else s1)"

definition keys_3 :: "(key \<Rightarrow> bool) \<Rightarrow> ViewManager \<Rightarrow> ViewManager" where
  "keys_3 keys s =
     (let s1 = (if keys KEY_3 \<and> \<not> viewKeyPressed_2 s
                then s\<lparr>bOrthographicProjection := True, viewKeyPressed_2 := True,
                       g_pCamera := reset_camera (Vec3 15 5 0) (- 180) (- 20) (g_pCamera s)\<rparr>
                else s)
      in if \<not> keys KEY_3 then s1\<lparr>viewKeyPressed_2 := False\<rparr> else s1)"

definition ProcessKeyboardEvents :: "(key \<Rightarrow> bool) \<Rightarrow> ViewManager \<Rightarrow> ViewManager" where
  "ProcessKeyboardEvents keys s =
     keys_3 keys (keys_2 keys (keys_1 keys (keys_O keys (keys_P keys
       (keys_move keys (keys_escape keys s))))))"

text \<open>Runs of events: mouse moves, and frames of \<open>ProcessKeyboardEvents\<close>.\<close>

fun mouse_moves :: "(real \<times> real) list \<Rightarrow> ViewManager \<Rightarrow> ViewManager" where
  "mouse_moves [] s = s"
| "mouse_moves ((x, y) # evs) s = mouse_moves evs (Mouse_Position_Callback x y s)"

text \<open>The pitch increments of a run of mouse moves: the \<open>yoffset\<close> of each event.\<close>

fun pitch_increments :: "(real \<times> real) list \<Rightarrow> ViewManager \<Rightarrow> real list" where
  "pitch_increments [] s = []"
| "pitch_increments ((x, y) # evs) s =
     mouse_yoffset y s # pitch_increments evs (Mouse_Position_Callback x y s)"

fun frames :: "(key \<Rightarrow> bool) list \<Rightarrow> ViewManager \<Rightarrow> ViewManager" where
  "frames [] s = s"
| "frames (keys # ks) s = frames ks (ProcessKeyboardEvents keys s)"

text \<open>The number of frames of a run in which the perspective reset of lines 207-222 is
  executed: the frames whose test at line 206 succeeds, in the state the test sees.\<close>

fun perspective_resets :: "(key \<Rightarrow> bool) list \<Rightarrow> ViewManager \<Rightarrow> nat" where
  "perspective_resets [] s = 0"
| "perspective_resets (keys # ks) s =
     (if P_fires keys (keys_move keys (keys_escape keys s)) then 1 else 0)
       + perspective_resets ks (ProcessKeyboardEvents keys s)"

text \<open>The claimed invariant of the camera: the front vector is the one derived from the
  current yaw and pitch.\<close>

definition derived_front :: "real \<Rightarrow> real \<Rightarrow> vec3" where
  "derived_front yaw pitch =
     glm_normalize (Vec3 (cos (glm_radians yaw) * cos (glm_radians pitch))
                         (sin (glm_radians pitch))
                         (sin (glm_radians yaw) * cos (glm_radians pitch)))"

definition front_from_angles :: "Camera \<Rightarrow> bool" where
  "front_from_angles cam = (Front cam = derived_front (Yaw cam) (Pitch cam))"

text \<open>The test of any of the five preset blocks (lines 206, 227, 251, 270, 289).\<close>

definition preset_fires :: "(key \<Rightarrow> bool) \<Rightarrow> ViewManager \<Rightarrow> bool" where
  "preset_fires keys s =
     (P_fires keys s \<or> (keys KEY_O \<and> \<not> oPressed s) \<or> (keys KEY_1 \<and> \<not> viewKeyPressed_0 s)
      \<or> (keys KEY_2 \<and> \<not> viewKeyPressed_1 s) \<or> (keys KEY_3 \<and> \<not> viewKeyPressed_2 s))"

text \<open>The handler without the block of P (lines 206-225), and a run of frames of it.\<close>

definition ProcessKeyboardEvents_without_P :: "(key \<Rightarrow> bool) \<Rightarrow> ViewManager \<Rightarrow> ViewManager" where
  "ProcessKeyboardEvents_without_P keys s =
     keys_3 keys (keys_2 keys (keys_1 keys (keys_O keys (keys_move keys (keys_escape keys s)))))"

fun frames_without_P :: "(key \<Rightarrow> bool) list \<Rightarrow> ViewManager \<Rightarrow> ViewManager" where
  "frames_without_P [] s = s"
| "frames_without_P (keys # ks) s = frames_without_P ks (ProcessKeyboardEvents_without_P keys s)"

text \<open>The test of any of the four preset blocks after the one of P.\<close>

definition other_preset_fires :: "(key \<Rightarrow> bool) \<Rightarrow> ViewManager \<Rightarrow> bool" where
  "other_preset_fires keys s =
     ((keys KEY_O \<and> \<not> oPressed s) \<or> (keys KEY_1 \<and> \<not> viewKeyPressed_0 s)
      \<or> (keys KEY_2 \<and> \<not> viewKeyPressed_1 s) \<or> (keys KEY_3 \<and> \<not> viewKeyPressed_2 s))"

text \<open>Concrete inputs for the evaluations below: a camera as \<open>new Camera()\<close> may yield it
  (yaw \<open>-90\<close>, pitch \<open>0\<close>), the keyboard with only P held, and the keyboard with no key
  held.\<close>

definition default_camera :: Camera where
  "default_camera = \<lparr>Position = Vec3 0 0 0, Front = Vec3 0 0 (- 1), Up = Vec3 0 1 0,
     Yaw = - 90, Pitch = 0, Zoom = 45\<rparr>"

definition only_P :: "key \<Rightarrow> bool" where
  "only_P k = (k = KEY_P)"

definition no_key :: "key \<Rightarrow> bool" where
  "no_key k = False"

section \<open>Material lookup\<close>

lemma FindMaterial_loop_found: "FindMaterial_loop mats t index True material = material"
  by (subst FindMaterial_loop.simps) simp

lemma FindMaterial_loop_find:
  "FindMaterial_loop mats t index False material =
     (case find (\<lambda>m. material_tag m = t) (drop index mats) of
        None \<Rightarrow> material
      | Some m \<Rightarrow> material\<lparr>ambientColor := ambientColor m,
                            ambientStrength := ambientStrength m,
                            diffuseColor := diffuseColor m,
                            specularColor := specularColor m,
                            shininess := shininess m\<rparr>)"
proof (induction "length mats - index" arbitrary: index)
  case 0
  then show ?case by (subst FindMaterial_loop.simps) simp
next
  case (Suc n)
  then have lt: "index < length mats" by simp
  then have dr: "drop index mats = mats ! index # drop (Suc index) mats"
    by (simp add: Cons_nth_drop_Suc)
  show ?case
  proof (cases "material_tag (mats ! index) = t")
    case True
    then show ?thesis using lt dr
      by (subst FindMaterial_loop.simps) (simp add: FindMaterial_loop_found)
  next
    case False
    have "n = length mats - Suc index" using Suc.hyps(2) by simp
    from Suc.hyps(1)[OF this] False lt dr show ?thesis
      by (subst FindMaterial_loop.simps) simp
  qed
qed

text \<open>
  C5. \<open>FindMaterial\<close> returns false exactly when the material library is empty, and true
  for a non-empty library whether or not the tag is present. When the tag is present, the
  five fields \<open>ambientColor\<close>, \<open>ambientStrength\<close>, \<open>diffuseColor\<close>, \<open>specularColor\<close> and
  \<open>shininess\<close> of the first preset with that tag are copied into the out-parameter (its
  other field stays); when the tag is absent the out-parameter is unchanged.
\<close>

theorem FindMaterial_contract:
  "(fst (FindMaterial s t out) = False \<longleftrightarrow> m_objectMaterials s = []) \<and>
   (m_objectMaterials s \<noteq> [] \<longrightarrow> fst (FindMaterial s t out) = True) \<and>
   (\<forall>m. find (\<lambda>m. material_tag m = t) (m_objectMaterials s) = Some m \<longrightarrow>
        snd (FindMaterial s t out) = out\<lparr>ambientColor := ambientColor m,
                                          ambientStrength := ambientStrength m,
                                          diffuseColor := diffuseColor m,
                                          specularColor := specularColor m,
                                          shininess := shininess m\<rparr>) \<and>
   (find (\<lambda>m. material_tag m = t) (m_objectMaterials s) = None \<longrightarrow>
        snd (FindMaterial s t out) = out)"
  by (auto simp: FindMaterial_def FindMaterial_loop_find)

theorem FindMaterial_contract_witness:
  "m_objectMaterials prepared_scene \<noteq> []
   \<and> find (\<lambda>m. material_tag m = ''gold'') (m_objectMaterials prepared_scene) =
       Some \<lparr>ambientStrength = 0.25, ambientColor = Vec3 0.3 0.3 0.3,
             diffuseColor = Vec3 0.6 0.6 0.6, specularColor = Vec3 1 1 1,
             shininess = 64, material_tag = ''gold''\<rparr>
   \<and> FindMaterial prepared_scene ''gold'' no_material =
       (True, \<lparr>ambientStrength = 0.25, ambientColor = Vec3 0.3 0.3 0.3,
               diffuseColor = Vec3 0.6 0.6 0.6, specularColor = Vec3 1 1 1,
               shininess = 64, material_tag = []\<rparr>)
   \<and> find (\<lambda>m. material_tag m = ''glass'') (m_objectMaterials prepared_scene) = None
   \<and> FindMaterial prepared_scene ''glass'' no_material = (True, no_material)
   \<and> FindMaterial new_scene ''gold'' no_material = (False, no_material)"
proof -
  have mats: "m_objectMaterials prepared_scene \<noteq> []"
    and gold: "find (\<lambda>m. material_tag m = ''gold'') (m_objectMaterials prepared_scene) =
       Some \<lparr>ambientStrength = 0.25, ambientColor = Vec3 0.3 0.3 0.3,
             diffuseColor = Vec3 0.6 0.6 0.6, specularColor = Vec3 1 1 1,
             shininess = 64, material_tag = ''gold''\<rparr>"
    and glass: "find (\<lambda>m. material_tag m = ''glass'') (m_objectMaterials prepared_scene) = None"
    and empty: "m_objectMaterials new_scene = []"
    by (simp_all add: prepared_scene_def new_scene_def SetupMaterials_def Let_def)
  show ?thesis
    using FindMaterial_contract [of prepared_scene "''gold''" no_material]
      FindMaterial_contract [of prepared_scene "''glass''" no_material]
      FindMaterial_contract [of new_scene "''gold''" no_material]
      mats gold glass empty
    by (simp add: prod_eq_iff no_material_def)
qed

section \<open>Texture slots\<close>

lemma FindTextureSlot_loop_found: "FindTextureSlot_loop texs t slot index True = slot"
  by (subst FindTextureSlot_loop.simps) simp

lemma FindTextureSlot_loop_miss:
  "(\<forall>j. index \<le> j \<and> j < length texs \<longrightarrow> tag (texs ! j) \<noteq> t) \<Longrightarrow>
   FindTextureSlot_loop texs t slot index False = slot"
proof (induction "length texs - index" arbitrary: index)
  case 0
  then show ?case by (subst FindTextureSlot_loop.simps) simp
next
  case (Suc n)
  then have lt: "index < length texs" by simp
  have ne: "tag (texs ! index) \<noteq> t" using Suc.prems lt by simp
  have "n = length texs - Suc index" using Suc.hyps(2) by simp
  moreover have "\<forall>j. Suc index \<le> j \<and> j < length texs \<longrightarrow> tag (texs ! j) \<noteq> t"
    using Suc.prems by simp
  ultimately have "FindTextureSlot_loop texs t slot (Suc index) False = slot"
    by (rule Suc.hyps(1))
  then show ?case using lt ne by (subst FindTextureSlot_loop.simps) simp
qed

lemma FindTextureSlot_loop_hit:
  "index \<le> k \<Longrightarrow> k < length texs \<Longrightarrow> tag (texs ! k) = t \<Longrightarrow>
   (\<forall>j. index \<le> j \<and> j < k \<longrightarrow> tag (texs ! j) \<noteq> t) \<Longrightarrow>
   FindTextureSlot_loop texs t slot index False = int k"
proof (induction "k - index" arbitrary: index)
  case 0
  then have "index = k" by simp
  then show ?case using 0
    by (subst FindTextureSlot_loop.simps) (simp add: FindTextureSlot_loop_found)
next
  case (Suc n)
  then have lt: "index < k" by simp
  then have ne: "tag (texs ! index) \<noteq> t" using Suc.prems by simp
  have "FindTextureSlot_loop texs t slot (Suc index) False = int k"
    using Suc.hyps(2) Suc.prems lt by (intro Suc.hyps(1)) auto
  then show ?case using lt ne Suc.prems(2)
    by (subst FindTextureSlot_loop.simps) simp
qed

lemma CreateGLTexture_success:
  "CreateGLTexture img textureID t s = Inr (True, s') \<Longrightarrow>
   m_textureIDs s' = m_textureIDs s @ [\<lparr>ID = textureID, tag = t\<rparr>]"
  by (auto simp: CreateGLTexture_def split: option.splits if_splits)

lemma CreateGLTextures_registry:
  "CreateGLTextures cs s = Some s' \<Longrightarrow>
   m_textureIDs s' = m_textureIDs s @ map entry_of cs"
proof (induction cs arbitrary: s)
  case Nil
  then show ?case by simp
next
  case (Cons c cs)
  obtain img textureID t where c: "c = (img, textureID, t)" by (cases c) auto
  from Cons.prems c obtain s1 where
    s1: "CreateGLTexture img textureID t s = Inr (True, s1)" and
    rest: "CreateGLTextures cs s1 = Some s'"
    by (auto split: sum.splits prod.splits bool.splits)
  from CreateGLTexture_success[OF s1] Cons.IH[OF rest] c show ?case
    by (simp add: entry_of_def)
qed

lemma FindTextureSlot_registered:
  assumes "distinct (map tag texs)" "k < length texs"
  shows "FindTextureSlot_loop texs (tag (texs ! k)) slot 0 False = int k"
proof (rule FindTextureSlot_loop_hit)
  show "\<forall>j. 0 \<le> j \<and> j < k \<longrightarrow> tag (texs ! j) \<noteq> tag (texs ! k)"
  proof (intro allI impI)
    fix j assume "0 \<le> j \<and> j < k"
    then have "j < length texs" "j \<noteq> k" using assms(2) by auto
    then have "map tag texs ! j \<noteq> map tag texs ! k"
      using assms by (simp add: nth_eq_iff_index_eq del: nth_map)
    then show "tag (texs ! j) \<noteq> tag (texs ! k)" using \<open>j < length texs\<close> assms(2) by simp
  qed
qed (use assms in auto)

lemma FindTextureSlot_unregistered:
  assumes "t \<notin> set (map tag texs)"
  shows "FindTextureSlot_loop texs t slot 0 False = slot"
  by (rule FindTextureSlot_loop_miss) (use assms in auto)

text \<open>
  C6. Start from an empty registry and let the calls \<open>cs\<close> of \<open>CreateGLTexture\<close> all
  return true, with pairwise distinct tags. Then \<open>FindTextureSlot\<close> of the tag of the
  \<open>k\<close>-th call is \<open>k\<close>; these values are the same after one more successful call with a
  fresh tag; and \<open>FindTextureSlot\<close> of a tag that was not registered is \<open>-1\<close>.
\<close>

theorem texture_slot_stability:
  assumes "m_textureIDs s0 = []"
    and "CreateGLTextures cs s0 = Some s"
    and "distinct (map (\<lambda>c. snd (snd c)) cs)"
  shows "(\<forall>k<length cs. FindTextureSlot s (snd (snd (cs ! k))) = int k)
       \<and> (\<forall>img textureID t s'.
            t \<notin> set (map (\<lambda>c. snd (snd c)) cs)
            \<and> CreateGLTexture img textureID t s = Inr (True, s') \<longrightarrow>
            (\<forall>k<length cs. FindTextureSlot s' (snd (snd (cs ! k))) = int k))
       \<and> (\<forall>t. t \<notin> set (map (\<lambda>c. snd (snd c)) cs) \<longrightarrow> FindTextureSlot s t = - 1)"
proof -
  have reg: "m_textureIDs s = map entry_of cs"
    using CreateGLTextures_registry[OF assms(2)] assms(1) by simp
  have tags: "map tag (map entry_of cs) = map (\<lambda>c. snd (snd c)) cs"
    by (simp add: entry_of_def)
  have a: "\<forall>k<length cs. FindTextureSlot s (snd (snd (cs ! k))) = int k"
  proof (intro allI impI)
    fix k assume k: "k < length cs"
    have d0: "distinct (map tag (map entry_of cs))"
      using assms(3) by (simp only: tags)
    have "FindTextureSlot_loop (map entry_of cs) (tag (map entry_of cs ! k)) (- 1) 0 False = int k"
      by (rule FindTextureSlot_registered[OF d0]) (use k in simp)
    then show "FindTextureSlot s (snd (snd (cs ! k))) = int k"
      using k by (simp add: FindTextureSlot_def reg entry_of_def)
  qed
  have b: "\<forall>img textureID t s'.
            t \<notin> set (map (\<lambda>c. snd (snd c)) cs)
            \<and> CreateGLTexture img textureID t s = Inr (True, s') \<longrightarrow>
            (\<forall>k<length cs. FindTextureSlot s' (snd (snd (cs ! k))) = int k)"
  proof (intro allI impI)
    fix img textureID t s' k
    assume h: "t \<notin> set (map (\<lambda>c. snd (snd c)) cs)
            \<and> CreateGLTexture img textureID t s = Inr (True, s')" and k: "k < length cs"
    let ?cs = "cs @ [(img, textureID, t)]"
    have reg': "m_textureIDs s' = map entry_of ?cs"
      using CreateGLTexture_success[of img textureID t s s'] h reg by (simp add: entry_of_def)
    have e: "map tag (map entry_of ?cs) = map (\<lambda>c. snd (snd c)) cs @ [t]"
      by (simp add: entry_of_def)
    have "distinct (map (\<lambda>c. snd (snd c)) cs @ [t])"
      using assms(3) h by simp
    then have d: "distinct (map tag (map entry_of ?cs))"
      by (simp only: e)
    have "FindTextureSlot_loop (map entry_of ?cs) (tag (map entry_of ?cs ! k)) (- 1) 0 False = int k"
      by (rule FindTextureSlot_registered[OF d]) (use k in simp)
    then show "FindTextureSlot s' (snd (snd (cs ! k))) = int k"
      using k by (simp add: FindTextureSlot_def reg' entry_of_def nth_append)
  qed
  have c: "\<forall>t. t \<notin> set (map (\<lambda>c. snd (snd c)) cs) \<longrightarrow> FindTextureSlot s t = - 1"
    using FindTextureSlot_unregistered[of _ "map entry_of cs" "- 1"] tags
    by (simp add: FindTextureSlot_def reg)
  from a b c show ?thesis by blast
qed

theorem texture_slot_stability_witness:
  "m_textureIDs new_scene = []
   \<and> CreateGLTextures scene_textures new_scene =
       Some (new_scene\<lparr>m_textureIDs := map entry_of scene_textures\<rparr>)
   \<and> distinct (map (\<lambda>c. snd (snd c)) scene_textures)
   \<and> FindTextureSlot (new_scene\<lparr>m_textureIDs := map entry_of scene_textures\<rparr>) ''stainless'' = 0
   \<and> FindTextureSlot (new_scene\<lparr>m_textureIDs := map entry_of scene_textures\<rparr>) ''gold'' = 1
   \<and> FindTextureSlot (new_scene\<lparr>m_textureIDs := map entry_of scene_textures\<rparr>) ''wood'' = 2
   \<and> FindTextureSlot (new_scene\<lparr>m_textureIDs := map entry_of scene_textures\<rparr>) ''plastic'' = 3
   \<and> FindTextureSlot (new_scene\<lparr>m_textureIDs := map entry_of scene_textures\<rparr>) ''darkplastic'' = 4
   \<and> FindTextureSlot (new_scene\<lparr>m_textureIDs := map entry_of scene_textures\<rparr>) ''nonexistent'' = - 1"
proof -
  let ?s = "new_scene\<lparr>m_textureIDs := map entry_of scene_textures\<rparr>"
  have h1: "m_textureIDs new_scene = []"
    by (simp add: new_scene_def)
  have h2: "CreateGLTextures scene_textures new_scene = Some ?s"
    by (simp add: scene_textures_def new_scene_def CreateGLTexture_def m_loadedTextures_def
          texture_capacity_def entry_of_def)
  have h3: "distinct (map (\<lambda>c. snd (snd c)) scene_textures)"
    by (simp add: scene_textures_def)
  note T = texture_slot_stability [OF h1 h2 h3]
  from T have reg: "\<And>k. k < length scene_textures \<Longrightarrow>
      FindTextureSlot ?s (snd (snd (scene_textures ! k))) = int k"
    by blast
  from T have miss: "\<And>t. t \<notin> set (map (\<lambda>c. snd (snd c)) scene_textures) \<Longrightarrow>
      FindTextureSlot ?s t = - 1"
    by blast
  have "FindTextureSlot ?s ''stainless'' = 0" using reg [of 0] by (simp add: scene_textures_def)
  moreover have "FindTextureSlot ?s ''gold'' = 1" using reg [of 1] by (simp add: scene_textures_def)
  moreover have "FindTextureSlot ?s ''wood'' = 2" using reg [of 2] by (simp add: scene_textures_def)
  moreover have "FindTextureSlot ?s ''plastic'' = 3" using reg [of 3] by (simp add: scene_textures_def)
  moreover have "FindTextureSlot ?s ''darkplastic'' = 4"
    using reg [of 4] by (simp add: scene_textures_def)
  moreover have "FindTextureSlot ?s ''nonexistent'' = - 1"
    using miss [of "''nonexistent''"] by (simp add: scene_textures_def)
  ultimately show ?thesis using h1 h2 h3 by simp
qed

section \<open>The model matrix\<close>

lemma glm_rotate_x: "glm_rotate a (Vec3 1 0 0) = rotation_x a"
  by (simp add: glm_rotate_def glm_normalize_def rotation_x_def Let_def)

lemma glm_rotate_y: "glm_rotate a (Vec3 0 1 0) = rotation_y a"
  by (simp add: glm_rotate_def glm_normalize_def rotation_y_def Let_def)

lemma glm_rotate_z: "glm_rotate a (Vec3 0 0 1) = rotation_z a"
  by (simp add: glm_rotate_def glm_normalize_def rotation_z_def Let_def)

lemma modelView_product:
  "modelView sc rx ry rz p =
     mat_mul (mat_mul (mat_mul (mat_mul (glm_translate p) (rotation_x (glm_radians rx)))
       (rotation_y (glm_radians ry))) (rotation_z (glm_radians rz))) (glm_scale sc)"
  by (simp add: modelView_def Let_def glm_rotate_x glm_rotate_y glm_rotate_z)

lemma modelView_origin:
  "mat_vec (modelView sc rx ry rz p) (Vec4 0 0 0 1) = Vec4 (vx p) (vy p) (vz p) 1"
  by (cases sc; cases p)
     (simp add: modelView_product rotation_x_def rotation_y_def rotation_z_def)

lemma modelView_no_rotation:
  "modelView sc 0 0 0 p = mat_mul (glm_translate p) (glm_scale sc)"
  by (cases sc; cases p)
     (simp add: modelView_product rotation_x_def rotation_y_def rotation_z_def glm_radians_def)

lemma mat_origin_modelView: "mat_origin (modelView sc rx ry rz p) = p"
  by (simp add: mat_origin_def modelView_origin)

text \<open>
  C4. With a shader manager, \<open>SetTransformations\<close> adds one call: the uniform \<open>model\<close> is
  set to \<open>M = T * Rx * Ry * Rz * S\<close>, where each rotation is the rotation about the named
  world axis by the given angle converted to radians. \<open>M\<close> takes \<open>(0,0,0,1)\<close> to
  \<open>(translation,1)\<close> for all inputs, and \<open>M = T * S\<close> when the three angles are zero.
\<close>

theorem SetTransformations_model:
  assumes "has_shader s"
  shows "gl_calls (SetTransformations sc rx ry rz p s) =
           gl_calls s @ [SetUniform ''model'' (Mat4Value (modelView sc rx ry rz p))]
       \<and> modelView sc rx ry rz p =
           mat_mul (mat_mul (mat_mul (mat_mul (glm_translate p) (rotation_x (glm_radians rx)))
             (rotation_y (glm_radians ry))) (rotation_z (glm_radians rz))) (glm_scale sc)
       \<and> mat_vec (modelView sc rx ry rz p) (Vec4 0 0 0 1) = Vec4 (vx p) (vy p) (vz p) 1
       \<and> modelView sc 0 0 0 p = mat_mul (glm_translate p) (glm_scale sc)"
  using assms
  by (simp add: SetTransformations_def issue_def g_ModelName_def modelView_origin
        modelView_no_rotation modelView_product [symmetric])

theorem SetTransformations_model_witness:
  "has_shader new_scene
   \<and> gl_calls (SetTransformations (Vec3 1.5 0.3 1.5) 0 0 0 (Vec3 (- 8) 0.6 0) new_scene) =
       [SetUniform ''model'' (Mat4Value
          (Mat4 (Vec4 1.5 0 0 0) (Vec4 0 0.3 0 0) (Vec4 0 0 1.5 0) (Vec4 (- 8) 0.6 0 1)))]"
proof -
  have h: "has_shader new_scene" by (simp add: new_scene_def)
  note T = SetTransformations_model [OF h, of "Vec3 1.5 0.3 1.5" 0 0 0 "Vec3 (- 8) 0.6 0"]
  have calls: "gl_calls (SetTransformations (Vec3 1.5 0.3 1.5) 0 0 0 (Vec3 (- 8) 0.6 0) new_scene) =
      gl_calls new_scene @
      [SetUniform ''model'' (Mat4Value (modelView (Vec3 1.5 0.3 1.5) 0 0 0 (Vec3 (- 8) 0.6 0)))]"
    by (rule T [THEN conjunct1])
  have "modelView (Vec3 1.5 0.3 1.5) 0 0 0 (Vec3 (- 8) 0.6 0) =
      mat_mul (glm_translate (Vec3 (- 8) 0.6 0)) (glm_scale (Vec3 1.5 0.3 1.5))"
    by (rule T [THEN conjunct2, THEN conjunct2, THEN conjunct2])
  also have "\<dots> = Mat4 (Vec4 1.5 0 0 0) (Vec4 0 0.3 0 0) (Vec4 0 0 1.5 0) (Vec4 (- 8) 0.6 0 1)"
    by simp
  finally have M: "modelView (Vec3 1.5 0.3 1.5) 0 0 0 (Vec3 (- 8) 0.6 0) =
      Mat4 (Vec4 1.5 0 0 0) (Vec4 0 0.3 0 0) (Vec4 0 0 1.5 0) (Vec4 (- 8) 0.6 0 1)" .
  have "gl_calls new_scene = []" by (simp add: new_scene_def)
  with calls M h show ?thesis by simp
qed

section \<open>The calls of a frame\<close>

lemma emit_fields:
  "has_shader (emit cs s) = has_shader s"
  "m_textureIDs (emit cs s) = m_textureIDs s"
  "m_objectMaterials (emit cs s) = m_objectMaterials s"
  "uninit_material (emit cs s) = uninit_material s"
  "gl_calls (emit cs s) = gl_calls s @ cs"
  by (simp_all add: emit_def)

lemma emit_Nil: "emit [] s = s"
  by (simp add: emit_def)

lemma issue_emit: "issue c (emit cs s) = emit (cs @ [c]) s"
  by (simp add: issue_def emit_def)

lemma issued_emit: "issued s (emit cs s) = cs"
  by (simp add: issued_def emit_def)

lemma FindTextureSlot_emit: "FindTextureSlot (emit cs s) t = FindTextureSlot s t"
  by (simp add: FindTextureSlot_def emit_fields)

lemma FindMaterial_emit: "FindMaterial (emit cs s) t m = FindMaterial s t m"
  by (simp add: FindMaterial_def emit_fields)

lemma emitter_calls_of: "emitter s f cs \<Longrightarrow> calls_of s f = cs"
proof -
  assume "emitter s f cs"
  then have "f (emit [] s) = Inr (emit ([] @ cs) s)" unfolding emitter_def by blast
  then show ?thesis by (simp add: emit_Nil calls_of_def issued_emit)
qed

lemma emitter_emits: "emitter s f cs \<Longrightarrow> emits s f"
  using emitter_calls_of[of s f cs] by (simp add: emits_def)

lemma emitter_run: "emitter s f cs \<Longrightarrow> f s = Inr (emit cs s)"
proof -
  assume "emitter s f cs"
  then have "f (emit [] s) = Inr (emit ([] @ cs) s)" unfolding emitter_def by blast
  then show ?thesis by (simp add: emit_Nil)
qed

lemma emitter_seq:
  "list_all (emits s) fs \<Longrightarrow> emitter s (seq fs) (concat (map (calls_of s) fs))"
proof (induction fs)
  case Nil
  then show ?case by (simp add: emitter_def)
next
  case (Cons f fs)
  then have f: "\<And>acc. f (emit acc s) = Inr (emit (acc @ calls_of s f) s)"
    and r: "\<And>acc. seq fs (emit acc s) = Inr (emit (acc @ concat (map (calls_of s) fs)) s)"
    by (simp_all add: emits_def emitter_def)
  show ?case by (simp add: emitter_def f r)
qed

lemma emitter_SetTransformations:
  "emitter s (ok (SetTransformations sc rx ry rz p))
     (if has_shader s then [model_call sc rx ry rz p] else [])"
  by (simp add: emitter_def ok_def SetTransformations_def g_ModelName_def emit_fields issue_emit
        model_call_def)

lemma emitter_SetShaderTexture:
  "emitter s (ok (SetShaderTexture t))
     (if has_shader s then [SetUniform ''bUseTexture'' (IntValue 1),
        SetUniform ''objectTexture'' (Sampler2DValue (FindTextureSlot s t))] else [])"
  by (simp add: emitter_def ok_def SetShaderTexture_def g_UseTextureName_def
        g_TextureValueName_def Let_def emit_fields issue_emit FindTextureSlot_emit)

lemma emitter_SetTextureUVScale:
  "emitter s (ok (SetTextureUVScale u v))
     (if has_shader s then [SetUniform ''UVscale'' (Vec2Value u v)] else [])"
  by (simp add: emitter_def ok_def SetTextureUVScale_def emit_fields issue_emit)

lemma emitter_SetShaderMaterial:
  "has_shader s \<or> m_objectMaterials s = [] \<Longrightarrow>
   emitter s (SetShaderMaterial t)
     (if m_objectMaterials s = [] then [] else material_calls s t)"
  by (auto simp add: emitter_def SetShaderMaterial_def FindMaterial_def Let_def emit_fields
        issue_emit material_calls_def)

lemma emitter_Draw:
  "emitter s (ok DrawPlaneMesh) [DrawMesh Plane]"
  "emitter s (ok DrawBoxMesh) [DrawMesh Box]"
  "emitter s (ok DrawCylinderMesh) [DrawMesh Cylinder]"
  "emitter s (ok DrawTaperedCylinderMesh) [DrawMesh TaperedCylinder]"
  "emitter s (ok DrawConeMesh) [DrawMesh Cone]"
  "emitter s (ok DrawSphereMesh) [DrawMesh Sphere]"
  by (simp_all add: emitter_def ok_def DrawPlaneMesh_def DrawBoxMesh_def DrawCylinderMesh_def
        DrawTaperedCylinderMesh_def DrawConeMesh_def DrawSphereMesh_def issue_emit)

lemmas emits_steps =
  emitter_SetTransformations [THEN emitter_emits]
  emitter_SetShaderTexture [THEN emitter_emits]
  emitter_SetTextureUVScale [THEN emitter_emits]
  emitter_SetShaderMaterial [THEN emitter_emits]
  emitter_Draw [THEN emitter_emits]

lemmas calls_of_steps =
  emitter_SetTransformations [THEN emitter_calls_of]
  emitter_SetShaderTexture [THEN emitter_calls_of]
  emitter_SetTextureUVScale [THEN emitter_calls_of]
  emitter_SetShaderMaterial [THEN emitter_calls_of]
  emitter_Draw [THEN emitter_calls_of]

subsection \<open>The handle loop\<close>

lemma emits_segment_steps:
  "has_shader s \<or> m_objectMaterials s = [] \<Longrightarrow> list_all (emits s) (segment_steps i)"
  by (simp add: segment_steps_def Let_def emits_steps)

lemma emitter_handle_segment:
  "has_shader s \<or> m_objectMaterials s = [] \<Longrightarrow>
   emitter s (handle_segment i) (concat (map (calls_of s) (segment_steps i)))"
  unfolding handle_segment_def by (rule emitter_seq) (rule emits_segment_steps)

lemma emitter_handle_loop:
  assumes ok: "has_shader s \<or> m_objectMaterials s = []"
  shows "emitter s (handle_loop i)
           (concat (map (\<lambda>j. calls_of s (handle_segment j)) [i..<handleSegments]))"
proof (induction "handleSegments - i" arbitrary: i)
  case 0
  then have "\<not> i < handleSegments" by simp
  then show ?case by (simp add: emitter_def handle_loop.simps)
next
  case (Suc n)
  then have lt: "i < handleSegments" by simp
  have "n = handleSegments - (i + 1)" using Suc.hyps(2) by simp
  from Suc.hyps(1)[OF this]
  have r: "\<And>acc. handle_loop (Suc i) (emit acc s) =
      Inr (emit (acc @ concat (map (\<lambda>j. calls_of s (handle_segment j)) [Suc i..<handleSegments])) s)"
    by (simp add: emitter_def)
  have f: "\<And>acc. handle_segment i (emit acc s) = Inr (emit (acc @ calls_of s (handle_segment i)) s)"
    using emitter_handle_segment[OF ok, THEN emitter_emits, of i] by (simp add: emits_def emitter_def)
  have u: "[i..<handleSegments] = i # [Suc i..<handleSegments]"
    using lt by (simp add: upt_conv_Cons)
  show ?case
    unfolding emitter_def
  proof
    fix acc
    show "handle_loop i (emit acc s) =
      Inr (emit (acc @ concat (map (\<lambda>j. calls_of s (handle_segment j)) [i..<handleSegments])) s)"
      by (subst handle_loop.simps) (simp add: lt f r u)
  qed
qed

lemma calls_of_handle_loop:
  assumes "has_shader s \<or> m_objectMaterials s = []"
  shows "calls_of s (handle_loop 0) =
     concat (map (\<lambda>j. concat (map (calls_of s) (segment_steps j))) [0, 1, 2, 3, 4, 5, 6])"
proof -
  have u: "[0..<handleSegments] = [0, 1, 2, 3, 4, 5, 6]"
    by code_simp
  have "calls_of s (handle_loop 0) =
      concat (map (\<lambda>j. calls_of s (handle_segment j)) [0..<handleSegments])"
    by (rule emitter_calls_of) (rule emitter_handle_loop [OF assms])
  then show ?thesis
    by (simp only: u emitter_handle_segment [OF assms, THEN emitter_calls_of])
qed

subsection \<open>The whole frame\<close>

lemma emits_scene_steps:
  assumes "has_shader s \<or> m_objectMaterials s = []"
  shows "list_all (emits s) scene_steps"
  by (simp add: scene_steps_def emits_steps assms emitter_handle_loop [OF assms, THEN emitter_emits])

lemma RenderScene_frame:
  assumes "has_shader s \<or> m_objectMaterials s = []"
  shows "RenderScene s = Inr (emit (concat (map (calls_of s) scene_steps)) s)"
  unfolding RenderScene_def
  by (rule emitter_run) (rule emitter_seq, rule emits_scene_steps [OF assms])

lemma drawn_append: "drawn (xs @ ys) = drawn xs @ drawn ys"
  by (induction xs rule: drawn.induct) simp_all

lemma drawn_concat: "drawn (concat xss) = concat (map drawn xss)"
  by (induction xss) (simp_all add: drawn_append)

lemma drawn_material_calls: "drawn (material_calls s t) = []"
  by (simp add: material_calls_def Let_def)

lemma drawn_model_call: "drawn [model_call sc rx ry rz p] = []"
  by (simp add: model_call_def)

lemma drawn_calls_of:
  "drawn (calls_of s (ok (SetTransformations sc rx ry rz p))) = []"
  "drawn (calls_of s (ok (SetShaderTexture t))) = []"
  "drawn (calls_of s (ok (SetTextureUVScale u v))) = []"
  "has_shader s \<or> m_objectMaterials s = [] \<Longrightarrow> drawn (calls_of s (SetShaderMaterial t)) = []"
  "drawn (calls_of s (ok DrawPlaneMesh)) = [Plane]"
  "drawn (calls_of s (ok DrawBoxMesh)) = [Box]"
  "drawn (calls_of s (ok DrawCylinderMesh)) = [Cylinder]"
  "drawn (calls_of s (ok DrawTaperedCylinderMesh)) = [TaperedCylinder]"
  "drawn (calls_of s (ok DrawConeMesh)) = [Cone]"
  "drawn (calls_of s (ok DrawSphereMesh)) = [Sphere]"
  by (simp_all add: calls_of_steps drawn_material_calls drawn_model_call)

lemma drawn_segment:
  "has_shader s \<or> m_objectMaterials s = [] \<Longrightarrow>
   drawn (concat (map (calls_of s) (segment_steps i))) = [Cylinder]"
  by (simp add: segment_steps_def Let_def drawn_append drawn_calls_of)

lemma drawn_handle_loop:
  "has_shader s \<or> m_objectMaterials s = [] \<Longrightarrow>
   drawn (calls_of s (handle_loop 0)) =
     [Cylinder, Cylinder, Cylinder, Cylinder, Cylinder, Cylinder, Cylinder]"
  by (simp add: calls_of_handle_loop drawn_append drawn_segment)

lemma drawn_frame:
  assumes "has_shader s \<or> m_objectMaterials s = []"
  shows "drawn (concat (map (calls_of s) scene_steps)) =
     [Plane, Box, Cylinder, Cylinder, TaperedCylinder, Sphere, TaperedCylinder, Sphere,
      Cylinder, Cone, Sphere, Box, Box, Cylinder, TaperedCylinder,
      Cylinder, Cylinder, Cylinder, Cylinder, Cylinder, Cylinder, Cylinder,
      Box, Box, Box]"
  using assms
  by (simp add: scene_steps_def drawn_append drawn_calls_of drawn_handle_loop)

text \<open>
  A call of \<open>RenderScene\<close> with a shader manager, or with an empty material library (so
  that \<open>SetShaderMaterial\<close> does not go through a null pointer), returns, keeps the calls
  issued before, and issues exactly 25 draws: the 18 fixed rows and the 7 cylinder
  segments of the mug handle, with the meshes of the scene list in its order.
\<close>

theorem RenderScene_draws:
  assumes "has_shader s \<or> m_objectMaterials s = []"
  shows "\<exists>s'. RenderScene s = Inr s'
       \<and> gl_calls s' = gl_calls s @ issued s s'
       \<and> length (drawn (issued s s')) = 25
       \<and> drawn (issued s s') =
           [Plane, Box, Cylinder, Cylinder, TaperedCylinder, Sphere, TaperedCylinder, Sphere,
            Cylinder, Cone, Sphere, Box, Box, Cylinder, TaperedCylinder]
           @ replicate 7 Cylinder @ [Box, Box, Box]"
proof -
  let ?cs = "concat (map (calls_of s) scene_steps)"
  have run: "RenderScene s = Inr (emit ?cs s)"
    by (rule RenderScene_frame [OF assms])
  have d: "drawn ?cs =
     [Plane, Box, Cylinder, Cylinder, TaperedCylinder, Sphere, TaperedCylinder, Sphere,
      Cylinder, Cone, Sphere, Box, Box, Cylinder, TaperedCylinder,
      Cylinder, Cylinder, Cylinder, Cylinder, Cylinder, Cylinder, Cylinder,
      Box, Box, Box]"
    by (rule drawn_frame [OF assms])
  have r: "replicate 7 Cylinder =
      [Cylinder, Cylinder, Cylinder, Cylinder, Cylinder, Cylinder, Cylinder]"
    by (simp add: numeral_eq_Suc)
  show ?thesis
    by (rule exI [of _ "emit ?cs s"]) (simp add: run issued_emit emit_fields d r)
qed

theorem RenderScene_draws_witness:
  "(has_shader prepared_scene \<or> m_objectMaterials prepared_scene = [])
   \<and> (\<exists>s'. RenderScene prepared_scene = Inr s'
       \<and> drawn (gl_calls s') =
           [Plane, Box, Cylinder, Cylinder, TaperedCylinder, Sphere, TaperedCylinder, Sphere,
            Cylinder, Cone, Sphere, Box, Box, Cylinder, TaperedCylinder,
            Cylinder, Cylinder, Cylinder, Cylinder, Cylinder, Cylinder, Cylinder,
            Box, Box, Box])"
proof -
  have h: "has_shader prepared_scene \<or> m_objectMaterials prepared_scene = []"
    by (simp add: prepared_scene_def new_scene_def SetupMaterials_def)
  have e: "gl_calls prepared_scene = []"
    by (simp add: prepared_scene_def new_scene_def SetupMaterials_def)
  from RenderScene_draws [OF h] obtain s' where
    "RenderScene prepared_scene = Inr s'"
    "gl_calls s' = gl_calls prepared_scene @ issued prepared_scene s'"
    "drawn (issued prepared_scene s') =
           [Plane, Box, Cylinder, Cylinder, TaperedCylinder, Sphere, TaperedCylinder, Sphere,
            Cylinder, Cone, Sphere, Box, Box, Cylinder, TaperedCylinder]
           @ replicate 7 Cylinder @ [Box, Box, Box]"
    by blast
  then show ?thesis using h e by (auto simp add: numeral_eq_Suc)
qed

lemma model_rows_draw_states:
  "map (\<lambda>(m, u). (m, u ''model'')) (draw_states u cs) = model_rows (u ''model'') cs"
proof (induction cs arbitrary: u)
  case Nil
  then show ?case by simp
next
  case (Cons c cs)
  show ?case
  proof (cases c)
    case (SetUniform n v)
    have "map (\<lambda>(m, u). (m, u ''model'')) (draw_states u (c # cs)) =
        map (\<lambda>(m, u). (m, u ''model'')) (draw_states (u(n \<mapsto> v)) cs)"
      using SetUniform by simp
    also have "\<dots> = model_rows ((u(n \<mapsto> v)) ''model'') cs"
      by (rule Cons.IH)
    also have "\<dots> = model_rows (u ''model'') (c # cs)"
      using SetUniform by auto
    finally show ?thesis .
  next
    case (DrawMesh m)
    from Cons.IH [of u] DrawMesh show ?thesis by simp
  qed
qed

lemma frame_model_rows:
  assumes "has_shader s"
  shows "model_rows cur (concat (map (calls_of s) scene_steps)) = scene_rows"
  using assms
  by (simp add: scene_steps_def calls_of_steps calls_of_handle_loop segment_steps_def Let_def
      model_call_def material_calls_def row_def handle_row_def scene_rows_def
      lowerArmLength_def lowerArm_xRot_def lowerArm_pos_def upperArmLength_def upperArm_xRot_def
      upperArm_yRot_def neckLength_def neck_xRot_def neckStart_def laptopPos_def laptopScale_def
      lidScale_def lidPos_def cupPos_def cupScale_def rimScale_def rimPos_def
      segmentRadius_def segmentLength_def handleSegments_def)

text \<open>
  With a shader manager, the draws of a call of \<open>RenderScene\<close>, each with the model matrix
  in force at it, are the 25 rows of the scene list, in its order, whatever the uniforms
  were before the call.
\<close>

theorem RenderScene_rows:
  assumes "has_shader s"
  shows "\<exists>s'. RenderScene s = Inr s'
       \<and> gl_calls s' = gl_calls s @ issued s s'
       \<and> length scene_rows = 25
       \<and> (\<forall>u. map (\<lambda>(m, u). (m, u ''model'')) (draw_states u (issued s s')) = scene_rows)"
proof -
  let ?cs = "concat (map (calls_of s) scene_steps)"
  have run: "RenderScene s = Inr (emit ?cs s)"
    by (rule RenderScene_frame) (simp add: assms)
  have len: "length scene_rows = 25"
    by (simp add: scene_rows_def)
  have rows: "map (\<lambda>(m, u). (m, u ''model'')) (draw_states u ?cs) = scene_rows" for u
    by (simp only: model_rows_draw_states frame_model_rows [OF assms])
  show ?thesis
    by (rule exI [of _ "emit ?cs s"]) (simp add: run issued_emit emit_fields len rows)
qed

theorem RenderScene_rows_witness:
  "has_shader prepared_scene
   \<and> (\<exists>s'. RenderScene prepared_scene = Inr s'
        \<and> map (\<lambda>(m, u). (m, u ''model'')) (draw_states Map.empty (issued prepared_scene s')) =
            scene_rows)"
proof -
  have h: "has_shader prepared_scene"
    by (simp add: prepared_scene_def new_scene_def SetupMaterials_def)
  from RenderScene_rows [OF h] obtain s' where
    "RenderScene prepared_scene = Inr s'"
    "\<And>u. map (\<lambda>(m, u). (m, u ''model'')) (draw_states u (issued prepared_scene s')) = scene_rows"
    by blast
  with h show ?thesis by blast
qed

subsection \<open>A null shader manager\<close>





section \<open>Uniform values at the draws of a frame\<close>

lemma draw_states_fst: "map fst (draw_states u cs) = drawn cs"
proof (induction cs arbitrary: u)
  case Nil
  then show ?case by simp
next
  case (Cons c cs)
  then show ?case by (cases c) simp_all
qed

lemma draw_states_uniform:
  "k < length (draw_states u cs) \<Longrightarrow>
   snd (draw_states u cs ! k) n = uniform_at_draw k n (u n) cs"
proof (induction cs arbitrary: u k)
  case Nil
  then show ?case by simp
next
  case (Cons c cs)
  show ?case
  proof (cases c)
    case (SetUniform n' v)
    with Cons.prems have lt: "k < length (draw_states (u(n' \<mapsto> v)) cs)" by simp
    have "snd (draw_states u (c # cs) ! k) n = snd (draw_states (u(n' \<mapsto> v)) cs ! k) n"
      using SetUniform by simp
    also have "\<dots> = uniform_at_draw k n ((u(n' \<mapsto> v)) n) cs"
      by (rule Cons.IH [OF lt])
    also have "\<dots> = uniform_at_draw k n (u n) (c # cs)"
      using SetUniform by auto
    finally show ?thesis .
  next
    case (DrawMesh m)
    show ?thesis
    proof (cases k)
      case 0
      with DrawMesh show ?thesis by simp
    next
      case (Suc j)
      with Cons.prems DrawMesh have "j < length (draw_states u cs)" by simp
      from Cons.IH [OF this] DrawMesh Suc show ?thesis by simp
    qed
  qed
qed

lemma final_uniforms_uniform: "final_uniforms u cs n = uniform_at_end n (u n) cs"
proof (induction cs arbitrary: u)
  case Nil
  then show ?case by simp
next
  case (Cons c cs)
  show ?case
  proof (cases c)
    case (SetUniform n' v)
    have "final_uniforms u (c # cs) n = final_uniforms (u(n' \<mapsto> v)) cs n"
      using SetUniform by simp
    also have "\<dots> = uniform_at_end n ((u(n' \<mapsto> v)) n) cs"
      by (rule Cons.IH)
    also have "\<dots> = uniform_at_end n (u n) (c # cs)"
      using SetUniform by auto
    finally show ?thesis .
  next
    case (DrawMesh m)
    from Cons.IH [of u] DrawMesh show ?thesis by simp
  qed
qed

lemma frame_texture_uniforms:
  assumes "has_shader s"
  shows "uniform_at_draw 0 ''bUseTexture'' cur (concat (map (calls_of s) scene_steps)) = cur"
    and "uniform_at_draw 0 ''objectTexture'' cur (concat (map (calls_of s) scene_steps)) = cur"
    and "uniform_at_draw 3 ''bUseTexture'' cur (concat (map (calls_of s) scene_steps)) =
           Some (IntValue 1)"
    and "uniform_at_draw 3 ''objectTexture'' cur (concat (map (calls_of s) scene_steps)) =
           Some (Sampler2DValue (FindTextureSlot s ''darkplastic''))"
    and "uniform_at_draw 4 ''bUseTexture'' cur (concat (map (calls_of s) scene_steps)) =
           Some (IntValue 1)"
    and "uniform_at_draw 4 ''objectTexture'' cur (concat (map (calls_of s) scene_steps)) =
           Some (Sampler2DValue (FindTextureSlot s ''darkplastic''))"
    and "uniform_at_draw 7 ''bUseTexture'' cur (concat (map (calls_of s) scene_steps)) =
           Some (IntValue 1)"
    and "uniform_at_draw 7 ''objectTexture'' cur (concat (map (calls_of s) scene_steps)) =
           Some (Sampler2DValue (FindTextureSlot s ''plastic''))"
    and "uniform_at_draw 8 ''bUseTexture'' cur (concat (map (calls_of s) scene_steps)) =
           Some (IntValue 1)"
    and "uniform_at_draw 8 ''objectTexture'' cur (concat (map (calls_of s) scene_steps)) =
           Some (Sampler2DValue (FindTextureSlot s ''plastic''))"
    and "uniform_at_end ''bUseTexture'' cur (concat (map (calls_of s) scene_steps)) =
           Some (IntValue 1)"
    and "uniform_at_end ''objectTexture'' cur (concat (map (calls_of s) scene_steps)) =
           Some (Sampler2DValue (FindTextureSlot s ''gold''))"
  using assms
  by (simp_all add: scene_steps_def calls_of_steps calls_of_handle_loop segment_steps_def Let_def
      model_call_def material_calls_def)

lemma frame_model_uniforms:
  assumes "has_shader s"
  shows "uniform_at_draw 5 ''model'' cur (concat (map (calls_of s) scene_steps)) =
           Some (Mat4Value (modelView (Vec3 0.25 0.25 0.25) 0 0 0 elbow_pos))"
    and "uniform_at_draw 7 ''model'' cur (concat (map (calls_of s) scene_steps)) =
           Some (Mat4Value (modelView (Vec3 0.25 0.25 0.25) 0 0 0 head_pos))"
  using assms
  by (simp_all add: scene_steps_def calls_of_steps calls_of_handle_loop segment_steps_def Let_def
      model_call_def material_calls_def)

lemma list_all_concat: "list_all P (concat xss) = list_all (list_all P) xss"
  by (induction xss) simp_all

lemma frame_no_solid_color:
  assumes "has_shader s"
  shows "list_all (\<lambda>c. \<not> solid_color_call c) (concat (map (calls_of s) scene_steps))"
  using assms
  by (simp add: list_all_concat scene_steps_def calls_of_steps calls_of_handle_loop
      segment_steps_def Let_def model_call_def material_calls_def)

lemma frame_draw_count:
  assumes "has_shader s"
  shows "length (draw_states u (concat (map (calls_of s) scene_steps))) = 25"
proof -
  have "length (draw_states u (concat (map (calls_of s) scene_steps))) =
      length (map fst (draw_states u (concat (map (calls_of s) scene_steps))))"
    by simp
  also have "\<dots> = length (drawn (concat (map (calls_of s) scene_steps)))"
    by (simp only: draw_states_fst)
  also have "\<dots> = 25"
    using assms by (simp add: drawn_frame)
  finally show ?thesis .
qed

lemma frame_places:
  assumes "has_shader s"
  shows "placed_at 5 (concat (map (calls_of s) scene_steps)) = Some elbow_pos"
    and "placed_at 7 (concat (map (calls_of s) scene_steps)) = Some head_pos"
proof -
  let ?cs = "concat (map (calls_of s) scene_steps)"
  have len: "length (draw_states Map.empty ?cs) = 25"
    by (rule frame_draw_count [OF assms])
  show "placed_at 5 ?cs = Some elbow_pos"
    using len draw_states_uniform [of 5 Map.empty ?cs "''model''"]
      frame_model_uniforms(1) [OF assms, of None]
    by (simp add: placed_at_def mat_origin_modelView)
  show "placed_at 7 ?cs = Some head_pos"
    using len draw_states_uniform [of 7 Map.empty ?cs "''model''"]
      frame_model_uniforms(2) [OF assms, of None]
    by (simp add: placed_at_def mat_origin_modelView)
qed

section \<open>The shading of the rows of a frame\<close>

lemma prepared_scene_shader: "has_shader prepared_scene"
  by (simp add: prepared_scene_def new_scene_def SetupMaterials_def)

lemma prepared_scene_slots:
  "FindTextureSlot prepared_scene ''gold'' = 1"
  "FindTextureSlot prepared_scene ''plastic'' = 3"
  "FindTextureSlot prepared_scene ''darkplastic'' = 4"
  by (simp_all add: FindTextureSlot_def prepared_scene_def scene_textures_def entry_of_def
      FindTextureSlot_loop.simps)

text \<open>
  C10. With a shader manager, a call of \<open>RenderScene\<close> issues no call of the solid-colour
  path: \<open>bUseTexture\<close> is never set to 0 and \<open>objectColor\<close> is never written. So the rows
  that bind a material and no texture are drawn with the \<open>bUseTexture\<close> and
  \<open>objectTexture\<close> left by the textured draw before them: the ground plane (draw 0) with
  the values in force before the frame, the lower arm (draw 4) with those of the lamp
  post (draw 3, texture \<open>darkplastic\<close>), the neck (draw 8) with those of the head joint
  (draw 7, texture \<open>plastic\<close>). The frame leaves \<open>bUseTexture = 1\<close> and the slot of
  \<open>gold\<close>, which the ground plane of the next frame is drawn with.
\<close>

theorem RenderScene_textured_path:
  assumes "has_shader s"
  shows "\<exists>s'. RenderScene s = Inr s'
       \<and> gl_calls s' = gl_calls s @ issued s s'
       \<and> list_all (\<lambda>c. \<not> solid_color_call c) (issued s s')
       \<and> drawn (issued s s') ! 0 = Plane
       \<and> drawn (issued s s') ! 4 = TaperedCylinder
       \<and> drawn (issued s s') ! 8 = Cylinder
       \<and> (\<forall>u. length (draw_states u (issued s s')) = 25
            \<and> snd (draw_states u (issued s s') ! 0) ''bUseTexture'' = u ''bUseTexture''
            \<and> snd (draw_states u (issued s s') ! 0) ''objectTexture'' = u ''objectTexture''
            \<and> snd (draw_states u (issued s s') ! 3) ''bUseTexture'' = Some (IntValue 1)
            \<and> snd (draw_states u (issued s s') ! 3) ''objectTexture'' =
                Some (Sampler2DValue (FindTextureSlot s ''darkplastic''))
            \<and> snd (draw_states u (issued s s') ! 4) ''bUseTexture'' =
                snd (draw_states u (issued s s') ! 3) ''bUseTexture''
            \<and> snd (draw_states u (issued s s') ! 4) ''objectTexture'' =
                snd (draw_states u (issued s s') ! 3) ''objectTexture''
            \<and> snd (draw_states u (issued s s') ! 7) ''bUseTexture'' = Some (IntValue 1)
            \<and> snd (draw_states u (issued s s') ! 7) ''objectTexture'' =
                Some (Sampler2DValue (FindTextureSlot s ''plastic''))
            \<and> snd (draw_states u (issued s s') ! 8) ''bUseTexture'' =
                snd (draw_states u (issued s s') ! 7) ''bUseTexture''
            \<and> snd (draw_states u (issued s s') ! 8) ''objectTexture'' =
                snd (draw_states u (issued s s') ! 7) ''objectTexture''
            \<and> final_uniforms u (issued s s') ''bUseTexture'' = Some (IntValue 1)
            \<and> final_uniforms u (issued s s') ''objectTexture'' =
                Some (Sampler2DValue (FindTextureSlot s ''gold'')))"
proof -
  let ?cs = "concat (map (calls_of s) scene_steps)"
  have run: "RenderScene s = Inr (emit ?cs s)"
    by (rule RenderScene_frame) (simp add: assms)
  have d: "drawn ?cs ! 0 = Plane" "drawn ?cs ! 4 = TaperedCylinder" "drawn ?cs ! 8 = Cylinder"
    using assms by (simp_all add: drawn_frame)
  have u: "length (draw_states u ?cs) = 25
            \<and> snd (draw_states u ?cs ! 0) ''bUseTexture'' = u ''bUseTexture''
            \<and> snd (draw_states u ?cs ! 0) ''objectTexture'' = u ''objectTexture''
            \<and> snd (draw_states u ?cs ! 3) ''bUseTexture'' = Some (IntValue 1)
            \<and> snd (draw_states u ?cs ! 3) ''objectTexture'' =
                Some (Sampler2DValue (FindTextureSlot s ''darkplastic''))
            \<and> snd (draw_states u ?cs ! 4) ''bUseTexture'' =
                snd (draw_states u ?cs ! 3) ''bUseTexture''
            \<and> snd (draw_states u ?cs ! 4) ''objectTexture'' =
                snd (draw_states u ?cs ! 3) ''objectTexture''
            \<and> snd (draw_states u ?cs ! 7) ''bUseTexture'' = Some (IntValue 1)
            \<and> snd (draw_states u ?cs ! 7) ''objectTexture'' =
                Some (Sampler2DValue (FindTextureSlot s ''plastic''))
            \<and> snd (draw_states u ?cs ! 8) ''bUseTexture'' =
                snd (draw_states u ?cs ! 7) ''bUseTexture''
            \<and> snd (draw_states u ?cs ! 8) ''objectTexture'' =
                snd (draw_states u ?cs ! 7) ''objectTexture''
            \<and> final_uniforms u ?cs ''bUseTexture'' = Some (IntValue 1)
            \<and> final_uniforms u ?cs ''objectTexture'' =
                Some (Sampler2DValue (FindTextureSlot s ''gold''))" for u
  proof -
    have len: "length (draw_states u ?cs) = 25"
      by (rule frame_draw_count [OF assms])
    then have at: "snd (draw_states u ?cs ! k) n = uniform_at_draw k n (u n) ?cs"
      if "k < 25" for k n
      using that by (simp add: draw_states_uniform)
    show ?thesis
      by (simp add: len at final_uniforms_uniform frame_texture_uniforms [OF assms])
  qed
  show ?thesis
    by (rule exI [of _ "emit ?cs s"])
       (simp add: run issued_emit emit_fields d u frame_no_solid_color [OF assms])
qed

theorem RenderScene_textured_path_witness:
  "has_shader prepared_scene
   \<and> (\<exists>s'. RenderScene prepared_scene = Inr s'
        \<and> list_all (\<lambda>c. \<not> solid_color_call c) (issued prepared_scene s')
        \<and> snd (draw_states Map.empty (issued prepared_scene s') ! 0) ''bUseTexture'' = None
        \<and> snd (draw_states Map.empty (issued prepared_scene s') ! 4) ''bUseTexture'' =
            Some (IntValue 1)
        \<and> snd (draw_states Map.empty (issued prepared_scene s') ! 4) ''objectTexture'' =
            Some (Sampler2DValue 4)
        \<and> snd (draw_states Map.empty (issued prepared_scene s') ! 8) ''objectTexture'' =
            Some (Sampler2DValue 3)
        \<and> final_uniforms Map.empty (issued prepared_scene s') ''objectTexture'' =
            Some (Sampler2DValue 1))"
proof -
  from RenderScene_textured_path [OF prepared_scene_shader] obtain s' where
    run: "RenderScene prepared_scene = Inr s'"
    and solid: "list_all (\<lambda>c. \<not> solid_color_call c) (issued prepared_scene s')"
    and u: "\<And>u. snd (draw_states u (issued prepared_scene s') ! 0) ''bUseTexture'' =
                u ''bUseTexture''
            \<and> snd (draw_states u (issued prepared_scene s') ! 3) ''bUseTexture'' =
                Some (IntValue 1)
            \<and> snd (draw_states u (issued prepared_scene s') ! 3) ''objectTexture'' =
                Some (Sampler2DValue (FindTextureSlot prepared_scene ''darkplastic''))
            \<and> snd (draw_states u (issued prepared_scene s') ! 4) ''bUseTexture'' =
                snd (draw_states u (issued prepared_scene s') ! 3) ''bUseTexture''
            \<and> snd (draw_states u (issued prepared_scene s') ! 4) ''objectTexture'' =
                snd (draw_states u (issued prepared_scene s') ! 3) ''objectTexture''
            \<and> snd (draw_states u (issued prepared_scene s') ! 7) ''objectTexture'' =
                Some (Sampler2DValue (FindTextureSlot prepared_scene ''plastic''))
            \<and> snd (draw_states u (issued prepared_scene s') ! 8) ''objectTexture'' =
                snd (draw_states u (issued prepared_scene s') ! 7) ''objectTexture''
            \<and> final_uniforms u (issued prepared_scene s') ''objectTexture'' =
                Some (Sampler2DValue (FindTextureSlot prepared_scene ''gold''))"
    by blast
  from run solid u [of Map.empty] show ?thesis
    by (intro conjI exI [of _ s']) (simp_all add: prepared_scene_shader prepared_scene_slots)
qed

section \<open>The joints of the lamp\<close>

lemma arm_offsets:
  "Vec3 (arm_dx L \<alpha> \<beta>) (arm_dy L \<alpha> \<beta>) (arm_dz L \<alpha> \<beta>) = forward_kinematics (Vec3 0 0 0) L \<alpha> \<beta>"
  by (simp add: arm_dx_def arm_dy_def arm_dz_def forward_kinematics_def Let_def)

lemma elbow_pos_formula:
  "elbow_pos = vec3_add (forward_kinematics (Vec3 (- 8) 2 0) 2.2 (- 50) 0) (Vec3 (- 0.9) 0 0)"
  by (simp add: elbow_pos_def elbowX_def elbowY_def elbowZ_def lowerArm_pos_def
      lowerArmLength_def lowerArm_xRot_def yRotElbow_def elbowOffset_def
      arm_dx_def arm_dy_def arm_dz_def forward_kinematics_def Let_def)

lemma head_offset:
  "vec3_sub head_pos elbow_pos = Vec3 (2 * sin (glm_radians 25)) (2 * cos (glm_radians 25)) 0"
  by (simp add: head_pos_def upperX_def upperY_def upperArmLength_def upperArm_xRot_def
      elbow_pos_def)

lemma new_scene_shader: "has_shader new_scene"
  by (simp add: new_scene_def)

lemma sin_25_degrees_pos: "0 < sin (glm_radians 25)"
proof -
  have "0 < glm_radians 25" by (simp add: glm_radians_def)
  moreover have "glm_radians 25 < pi" by (simp add: glm_radians_def)
  ultimately show ?thesis by (rule sin_gt_zero)
qed

lemma cos_90_degrees: "cos (glm_radians 90) = 0"
  by (simp add: glm_radians_def)

lemma sin_90_degrees: "sin (glm_radians 90) = 1"
  by (simp add: glm_radians_def)

text \<open>
  C2. With a shader manager, the elbow joint (draw 5, a sphere) is placed at the base of
  the lower arm \<open>(-8,2,0)\<close> plus the forward-kinematics displacement for \<open>L = 2.2\<close>,
  \<open>\<alpha> = -50\<close>, \<open>\<beta> = 0\<close>, plus \<open>-0.9\<close> in X. The three offsets the source computes are
  the displacement of the formula, and the formula gives, for base \<open>(0,0,0)\<close> and
  \<open>L = 1\<close>, the tip \<open>(1,0,0)\<close> at \<open>\<alpha> = -90\<close>, \<open>\<beta> = 0\<close> and the tip \<open>(0,1,0)\<close> at \<open>\<alpha> = 0\<close>.
\<close>

theorem elbow_joint_position:
  assumes "has_shader s"
  shows "\<exists>s'. RenderScene s = Inr s'
       \<and> drawn (issued s s') ! 5 = Sphere
       \<and> placed_at 5 (issued s s') =
           Some (vec3_add (forward_kinematics (Vec3 (- 8) 2 0) 2.2 (- 50) 0) (Vec3 (- 0.9) 0 0))
       \<and> (\<forall>L \<alpha> \<beta>. Vec3 (arm_dx L \<alpha> \<beta>) (arm_dy L \<alpha> \<beta>) (arm_dz L \<alpha> \<beta>) =
             forward_kinematics (Vec3 0 0 0) L \<alpha> \<beta>)
       \<and> forward_kinematics (Vec3 0 0 0) 1 (- 90) 0 = Vec3 1 0 0
       \<and> (\<forall>\<beta>. forward_kinematics (Vec3 0 0 0) 1 0 \<beta> = Vec3 0 1 0)"
proof -
  let ?cs = "concat (map (calls_of s) scene_steps)"
  have run: "RenderScene s = Inr (emit ?cs s)"
    by (rule RenderScene_frame) (simp add: assms)
  have d: "drawn ?cs ! 5 = Sphere"
    using assms by (simp add: drawn_frame)
  have p: "placed_at 5 ?cs =
      Some (vec3_add (forward_kinematics (Vec3 (- 8) 2 0) 2.2 (- 50) 0) (Vec3 (- 0.9) 0 0))"
    by (simp only: frame_places(1) [OF assms] elbow_pos_formula)
  have f1: "forward_kinematics (Vec3 0 0 0) 1 (- 90) 0 = Vec3 1 0 0"
    by (simp add: forward_kinematics_def sin_90_degrees cos_90_degrees)
       (simp add: glm_radians_def)
  have f2: "forward_kinematics (Vec3 0 0 0) 1 0 \<beta> = Vec3 0 1 0" for \<beta>
    by (simp add: forward_kinematics_def glm_radians_def)
  show ?thesis
    by (rule exI [of _ "emit ?cs s"]) (simp add: run issued_emit d p arm_offsets f1 f2)
qed

theorem elbow_joint_position_witness:
  "has_shader new_scene
   \<and> (\<exists>s'. RenderScene new_scene = Inr s'
        \<and> placed_at 5 (issued new_scene s') =
            Some (Vec3 (- 8 + 2.2 * sin (glm_radians 50) - 0.9) (2 + 2.2 * cos (glm_radians 50)) 0))"
proof -
  from elbow_joint_position [OF new_scene_shader] obtain s' where
    run: "RenderScene new_scene = Inr s'"
    and p: "placed_at 5 (issued new_scene s') =
           Some (vec3_add (forward_kinematics (Vec3 (- 8) 2 0) 2.2 (- 50) 0) (Vec3 (- 0.9) 0 0))"
    by blast
  have "vec3_add (forward_kinematics (Vec3 (- 8) 2 0) 2.2 (- 50) 0) (Vec3 (- 0.9) 0 0) =
      Vec3 (- 8 + 2.2 * sin (glm_radians 50) - 0.9) (2 + 2.2 * cos (glm_radians 50)) 0"
    by (simp add: forward_kinematics_def) (simp add: glm_radians_def)
  with run p show ?thesis
    by (intro conjI exI [of _ s']) (simp_all add: new_scene_shader)
qed

text \<open>
  C1, as the code has it. With a shader manager, the head joint (draw 7, a sphere) is
  placed at the elbow plus \<open>(L sin 25\<degree>, L cos 25\<degree>, 0)\<close> for \<open>L = 2.0\<close>: the X-rotation
  of the upper arm enters, its Y-rotation of 90 degrees does not (lines 579-583 compute
  X and Y only and keep the Z of the elbow).
\<close>

theorem head_joint_position:
  assumes "has_shader s"
  shows "\<exists>s' e h. RenderScene s = Inr s'
       \<and> drawn (issued s s') ! 7 = Sphere
       \<and> placed_at 5 (issued s s') = Some e
       \<and> placed_at 7 (issued s s') = Some h
       \<and> vec3_sub h e = Vec3 (2 * sin (glm_radians 25)) (2 * cos (glm_radians 25)) 0"
proof -
  let ?cs = "concat (map (calls_of s) scene_steps)"
  have run: "RenderScene s = Inr (emit ?cs s)"
    by (rule RenderScene_frame) (simp add: assms)
  have d: "drawn ?cs ! 7 = Sphere"
    using assms by (simp add: drawn_frame)
  show ?thesis
    by (rule exI [of _ "emit ?cs s"], rule exI [of _ elbow_pos], rule exI [of _ head_pos])
       (simp add: run issued_emit d frame_places [OF assms] head_offset)
qed

theorem head_joint_position_witness:
  "has_shader new_scene
   \<and> (\<exists>s' e h. RenderScene new_scene = Inr s'
        \<and> placed_at 5 (issued new_scene s') = Some e
        \<and> placed_at 7 (issued new_scene s') = Some h
        \<and> vec3_sub h e = Vec3 (2 * sin (glm_radians 25)) (2 * cos (glm_radians 25)) 0)"
  using head_joint_position [OF new_scene_shader] new_scene_shader by blast

text \<open>
  The displacement of the head joint from the elbow is not the one of the formula for
  \<open>\<beta> = 90\<close>: its X component is \<open>2 sin 25\<degree>\<close>, not \<open>2 sin 25\<degree> cos 90\<degree> = 0\<close>.
\<close>

theorem head_joint_counterexample:
  "RenderScene new_scene = Inr (projr (RenderScene new_scene))
   \<and> placed_at 5 (issued new_scene (projr (RenderScene new_scene))) = Some elbow_pos
   \<and> placed_at 7 (issued new_scene (projr (RenderScene new_scene))) = Some head_pos
   \<and> vec3_sub head_pos elbow_pos \<noteq>
         Vec3 (2 * sin (glm_radians 25) * cos (glm_radians 90))
              (2 * cos (glm_radians 25))
              (2 * sin (glm_radians 25) * sin (glm_radians 90))"
proof -
  let ?cs = "concat (map (calls_of new_scene) scene_steps)"
  have run: "RenderScene new_scene = Inr (emit ?cs new_scene)"
    by (rule RenderScene_frame) (simp add: new_scene_shader)
  have ne: "vec3_sub head_pos elbow_pos \<noteq>
         Vec3 (2 * sin (glm_radians 25) * cos (glm_radians 90))
              (2 * cos (glm_radians 25))
              (2 * sin (glm_radians 25) * sin (glm_radians 90))"
    using sin_25_degrees_pos by (simp add: head_offset cos_90_degrees)
  show ?thesis
    using ne by (simp add: run issued_emit frame_places [OF new_scene_shader])
qed

section \<open>The camera\<close>

lemma unit_product:
  fixes a b c d :: real
  assumes "a * a + b * b = 1" and "c * c + d * d = 1"
  shows "a * c * (a * c) + d * d + b * c * (b * c) = 1"
proof -
  have "a * c * (a * c) + d * d + b * c * (b * c) = (a * a + b * b) * (c * c) + d * d"
    by (simp add: algebra_simps)
  also have "\<dots> = c * c + d * d"
    by (simp only: assms(1) mult_1)
  finally show ?thesis by (simp only: assms(2))
qed

lemma front_components_unit:
  "cos yw * cos pt * (cos yw * cos pt) + sin pt * sin pt + sin yw * cos pt * (sin yw * cos pt) =
     (1::real)"
proof (rule unit_product)
  show "cos yw * cos yw + sin yw * sin yw = (1::real)"
    using sin_cos_squared_add2 [of yw] by (simp add: power2_eq_square)
  show "cos pt * cos pt + sin pt * sin pt = (1::real)"
    using sin_cos_squared_add2 [of pt] by (simp add: power2_eq_square)
qed

lemma derived_front_unit:
  "derived_front yaw pitch =
     Vec3 (cos (glm_radians yaw) * cos (glm_radians pitch))
          (sin (glm_radians pitch))
          (sin (glm_radians yaw) * cos (glm_radians pitch))"
  by (simp add: derived_front_def glm_normalize_def front_components_unit)

lemma derived_front_norm: "glm_dot (derived_front yaw pitch) (derived_front yaw pitch) = 1"
  by (simp add: derived_front_unit front_components_unit)

lemma recalc_front_fields:
  "Front (recalc_front cam) = derived_front (Yaw cam) (Pitch cam)"
  "Yaw (recalc_front cam) = Yaw cam"
  "Pitch (recalc_front cam) = Pitch cam"
  "Position (recalc_front cam) = Position cam"
  by (simp_all add: recalc_front_def derived_front_def Let_def)

lemma front_recalc: "front_from_angles (recalc_front cam)"
  by (simp add: front_from_angles_def recalc_front_fields)

lemma front_reset: "front_from_angles (reset_camera p yaw pitch cam)"
  by (simp add: reset_camera_def front_recalc)

lemma clamp_pitch_fields:
  "Yaw (clamp_pitch cam) = Yaw cam"
  "Pitch (clamp_pitch cam) =
     (if Pitch cam > 89 then 89 else if Pitch cam < - 89 then - 89 else Pitch cam)"
  by (simp_all add: clamp_pitch_def Let_def)

lemma Mouse_Position_Callback_camera:
  "g_pCamera (Mouse_Position_Callback x y s) =
     recalc_front (clamp_pitch ((g_pCamera s)\<lparr>Yaw := Yaw (g_pCamera s) + mouse_xoffset x s,
                                              Pitch := Pitch (g_pCamera s) + mouse_yoffset y s\<rparr>))"
  by (simp add: Mouse_Position_Callback_def Let_def)

lemma Mouse_Position_Callback_pitch:
  "Pitch (g_pCamera (Mouse_Position_Callback x y s)) =
     (if Pitch (g_pCamera s) + mouse_yoffset y s > 89 then 89
      else if Pitch (g_pCamera s) + mouse_yoffset y s < - 89 then - 89
      else Pitch (g_pCamera s) + mouse_yoffset y s)"
  by (simp add: Mouse_Position_Callback_camera recalc_front_fields clamp_pitch_fields)

subsection \<open>The blocks of the keyboard handler\<close>

lemma keys_escape_fields:
  "g_pCamera (keys_escape keys s) = g_pCamera s"
  "pPressed (keys_escape keys s) = pPressed s"
  "oPressed (keys_escape keys s) = oPressed s"
  "viewKeyPressed_0 (keys_escape keys s) = viewKeyPressed_0 s"
  "viewKeyPressed_1 (keys_escape keys s) = viewKeyPressed_1 s"
  "viewKeyPressed_2 (keys_escape keys s) = viewKeyPressed_2 s"
  by (simp_all add: keys_escape_def)

lemma move_by_fields:
  "Front (g_pCamera (move_by d s)) = Front (g_pCamera s)"
  "Up (g_pCamera (move_by d s)) = Up (g_pCamera s)"
  "Yaw (g_pCamera (move_by d s)) = Yaw (g_pCamera s)"
  "Pitch (g_pCamera (move_by d s)) = Pitch (g_pCamera s)"
  "pPressed (move_by d s) = pPressed s"
  "oPressed (move_by d s) = oPressed s"
  "viewKeyPressed_0 (move_by d s) = viewKeyPressed_0 s"
  "viewKeyPressed_1 (move_by d s) = viewKeyPressed_1 s"
  "viewKeyPressed_2 (move_by d s) = viewKeyPressed_2 s"
  by (simp_all add: move_by_def)

lemma keys_move_fields:
  "Front (g_pCamera (keys_move keys s)) = Front (g_pCamera s)"
  "Yaw (g_pCamera (keys_move keys s)) = Yaw (g_pCamera s)"
  "Pitch (g_pCamera (keys_move keys s)) = Pitch (g_pCamera s)"
  "pPressed (keys_move keys s) = pPressed s"
  "oPressed (keys_move keys s) = oPressed s"
  "viewKeyPressed_0 (keys_move keys s) = viewKeyPressed_0 s"
  "viewKeyPressed_1 (keys_move keys s) = viewKeyPressed_1 s"
  "viewKeyPressed_2 (keys_move keys s) = viewKeyPressed_2 s"
  by (simp_all add: keys_move_def Let_def move_by_fields)

lemma front_keys_move:
  "front_from_angles (g_pCamera (keys_move keys s)) = front_from_angles (g_pCamera s)"
  by (simp add: front_from_angles_def keys_move_fields)

lemma front_keys_escape:
  "front_from_angles (g_pCamera (keys_escape keys s)) = front_from_angles (g_pCamera s)"
  by (simp add: keys_escape_fields)

lemma keys_P_front:
  "front_from_angles (g_pCamera (keys_P keys s)) =
     (P_fires keys s \<or> front_from_angles (g_pCamera s))"
  by (simp add: keys_P_def Let_def front_reset)

lemma keys_O_front:
  "front_from_angles (g_pCamera (keys_O keys s)) =
     ((keys KEY_O \<and> \<not> oPressed s) \<or> front_from_angles (g_pCamera s))"
  by (simp add: keys_O_def Let_def front_reset)

lemma keys_1_front:
  "front_from_angles (g_pCamera (keys_1 keys s)) =
     ((keys KEY_1 \<and> \<not> viewKeyPressed_0 s) \<or> front_from_angles (g_pCamera s))"
  by (simp add: keys_1_def Let_def front_reset)

lemma keys_2_front:
  "front_from_angles (g_pCamera (keys_2 keys s)) =
     ((keys KEY_2 \<and> \<not> viewKeyPressed_1 s) \<or> front_from_angles (g_pCamera s))"
  by (simp add: keys_2_def Let_def front_reset)

lemma keys_3_front:
  "front_from_angles (g_pCamera (keys_3 keys s)) =
     ((keys KEY_3 \<and> \<not> viewKeyPressed_2 s) \<or> front_from_angles (g_pCamera s))"
  by (simp add: keys_3_def Let_def front_reset)

lemma keys_P_flags:
  "pPressed (keys_P keys s) = keys KEY_P"
  "oPressed (keys_P keys s) = oPressed s"
  "viewKeyPressed_0 (keys_P keys s) = viewKeyPressed_0 s"
  "viewKeyPressed_1 (keys_P keys s) = viewKeyPressed_1 s"
  "viewKeyPressed_2 (keys_P keys s) = viewKeyPressed_2 s"
  by (auto simp add: keys_P_def P_fires_def Let_def)

lemma keys_O_flags:
  "pPressed (keys_O keys s) = pPressed s"
  "viewKeyPressed_0 (keys_O keys s) = viewKeyPressed_0 s"
  "viewKeyPressed_1 (keys_O keys s) = viewKeyPressed_1 s"
  "viewKeyPressed_2 (keys_O keys s) = viewKeyPressed_2 s"
  by (simp_all add: keys_O_def Let_def)

lemma keys_1_flags:
  "pPressed (keys_1 keys s) = pPressed s"
  "viewKeyPressed_1 (keys_1 keys s) = viewKeyPressed_1 s"
  "viewKeyPressed_2 (keys_1 keys s) = viewKeyPressed_2 s"
  by (simp_all add: keys_1_def Let_def)

lemma keys_2_flags:
  "pPressed (keys_2 keys s) = pPressed s"
  "viewKeyPressed_2 (keys_2 keys s) = viewKeyPressed_2 s"
  by (simp_all add: keys_2_def Let_def)

lemma keys_3_flags:
  "pPressed (keys_3 keys s) = pPressed s"
  by (simp_all add: keys_3_def Let_def)

lemma ProcessKeyboardEvents_front:
  "front_from_angles (g_pCamera (ProcessKeyboardEvents keys s)) =
     (preset_fires keys s \<or> front_from_angles (g_pCamera s))"
  by (auto simp add: ProcessKeyboardEvents_def preset_fires_def P_fires_def
      keys_3_front keys_2_front keys_1_front keys_O_front keys_P_front
      keys_2_flags keys_1_flags keys_O_flags keys_P_flags keys_move_fields keys_escape_fields
      front_keys_move front_keys_escape)

lemma ProcessKeyboardEvents_pPressed:
  "pPressed (ProcessKeyboardEvents keys s) = keys KEY_P"
  by (simp add: ProcessKeyboardEvents_def keys_3_flags keys_2_flags keys_1_flags keys_O_flags
      keys_P_flags)

lemma keys_P_effect:
  "g_pCamera (keys_P keys s) =
     (if P_fires keys s then reset_camera (Vec3 0 5 12) (- 90) (- 20) (g_pCamera s)
      else g_pCamera s)"
  "bOrthographicProjection (keys_P keys s) =
     (if P_fires keys s then False else bOrthographicProjection s)"
  by (simp_all add: keys_P_def Let_def)

lemma keys_O_effect:
  "g_pCamera (keys_O keys s) =
     (if keys KEY_O \<and> \<not> oPressed s then reset_camera (Vec3 0 5 12) (- 90) (- 20) (g_pCamera s)
      else g_pCamera s)"
  "bOrthographicProjection (keys_O keys s) =
     (if keys KEY_O \<and> \<not> oPressed s then True else bOrthographicProjection s)"
  by (simp_all add: keys_O_def Let_def)

lemma keys_1_effect:
  "g_pCamera (keys_1 keys s) =
     (if keys KEY_1 \<and> \<not> viewKeyPressed_0 s
      then reset_camera (Vec3 0 5 12) (- 90) (- 20) (g_pCamera s) else g_pCamera s)"
  "bOrthographicProjection (keys_1 keys s) =
     (if keys KEY_1 \<and> \<not> viewKeyPressed_0 s then True else bOrthographicProjection s)"
  by (simp_all add: keys_1_def Let_def)

lemma keys_2_effect:
  "g_pCamera (keys_2 keys s) =
     (if keys KEY_2 \<and> \<not> viewKeyPressed_1 s
      then reset_camera (Vec3 0 15 0) (- 90) (- 89.9) (g_pCamera s) else g_pCamera s)"
  "bOrthographicProjection (keys_2 keys s) =
     (if keys KEY_2 \<and> \<not> viewKeyPressed_1 s then True else bOrthographicProjection s)"
  by (simp_all add: keys_2_def Let_def)

lemma keys_3_effect:
  "g_pCamera (keys_3 keys s) =
     (if keys KEY_3 \<and> \<not> viewKeyPressed_2 s
      then reset_camera (Vec3 15 5 0) (- 180) (- 20) (g_pCamera s) else g_pCamera s)"
  "bOrthographicProjection (keys_3 keys s) =
     (if keys KEY_3 \<and> \<not> viewKeyPressed_2 s then True else bOrthographicProjection s)"
  by (simp_all add: keys_3_def Let_def)

lemma later_blocks_idle:
  assumes "\<not> other_preset_fires keys s"
  shows "g_pCamera (keys_3 keys (keys_2 keys (keys_1 keys (keys_O keys s)))) = g_pCamera s"
    and "bOrthographicProjection (keys_3 keys (keys_2 keys (keys_1 keys (keys_O keys s)))) =
           bOrthographicProjection s"
  using assms
  by (auto simp add: other_preset_fires_def keys_3_effect keys_2_effect keys_1_effect
      keys_O_effect keys_2_flags keys_1_flags keys_O_flags)

lemma other_preset_fires_at_block:
  "other_preset_fires keys (keys_P keys (keys_move keys (keys_escape keys s))) =
     other_preset_fires keys s"
  by (simp add: other_preset_fires_def keys_P_flags keys_move_fields keys_escape_fields)

lemma move_fields_ortho:
  "bOrthographicProjection (keys_move keys (keys_escape keys s)) = bOrthographicProjection s"
  by (simp add: keys_move_def keys_escape_def move_by_def Let_def)

lemma handler_fires:
  assumes "P_fires keys s" and "\<not> other_preset_fires keys s"
  shows "g_pCamera (ProcessKeyboardEvents keys s) =
           reset_camera (Vec3 0 5 12) (- 90) (- 20)
             (g_pCamera (keys_move keys (keys_escape keys s)))"
    and "bOrthographicProjection (ProcessKeyboardEvents keys s) = False"
proof -
  let ?s1 = "keys_move keys (keys_escape keys s)"
  have f: "P_fires keys ?s1"
    using assms(1) by (simp add: P_fires_def keys_move_fields keys_escape_fields)
  have i: "\<not> other_preset_fires keys (keys_P keys ?s1)"
    using assms(2) by (simp add: other_preset_fires_at_block)
  show "g_pCamera (ProcessKeyboardEvents keys s) =
           reset_camera (Vec3 0 5 12) (- 90) (- 20) (g_pCamera ?s1)"
    unfolding ProcessKeyboardEvents_def
    by (simp add: later_blocks_idle(1) [OF i] keys_P_effect f)
  show "bOrthographicProjection (ProcessKeyboardEvents keys s) = False"
    unfolding ProcessKeyboardEvents_def
    by (simp add: later_blocks_idle(2) [OF i] keys_P_effect f)
qed

lemma handler_idle:
  assumes "\<not> P_fires keys s" and "\<not> other_preset_fires keys s"
  shows "g_pCamera (ProcessKeyboardEvents keys s) = g_pCamera (keys_move keys (keys_escape keys s))"
    and "bOrthographicProjection (ProcessKeyboardEvents keys s) = bOrthographicProjection s"
proof -
  let ?s1 = "keys_move keys (keys_escape keys s)"
  have f: "\<not> P_fires keys ?s1"
    using assms(1) by (simp add: P_fires_def keys_move_fields keys_escape_fields)
  have i: "\<not> other_preset_fires keys (keys_P keys ?s1)"
    using assms(2) by (simp add: other_preset_fires_at_block)
  show "g_pCamera (ProcessKeyboardEvents keys s) = g_pCamera ?s1"
    unfolding ProcessKeyboardEvents_def
    by (simp add: later_blocks_idle(1) [OF i] keys_P_effect f)
  show "bOrthographicProjection (ProcessKeyboardEvents keys s) = bOrthographicProjection s"
    unfolding ProcessKeyboardEvents_def
    by (simp add: later_blocks_idle(2) [OF i] keys_P_effect f move_fields_ortho)
qed

lemma reset_camera_fields:
  "Position (reset_camera p yaw pitch cam) = p"
  "Yaw (reset_camera p yaw pitch cam) = yaw"
  "Pitch (reset_camera p yaw pitch cam) = pitch"
  "Front (reset_camera p yaw pitch cam) = derived_front yaw pitch"
  by (simp_all add: reset_camera_def recalc_front_fields)

lemma preset_fires_split:
  "preset_fires keys s = (P_fires keys s \<or> other_preset_fires keys s)"
  by (simp add: preset_fires_def other_preset_fires_def)

lemma handler_no_preset:
  assumes "\<not> preset_fires keys s"
  shows "Front (g_pCamera (ProcessKeyboardEvents keys s)) = Front (g_pCamera s)"
    and "Yaw (g_pCamera (ProcessKeyboardEvents keys s)) = Yaw (g_pCamera s)"
    and "Pitch (g_pCamera (ProcessKeyboardEvents keys s)) = Pitch (g_pCamera s)"
  using assms
  by (simp_all add: preset_fires_split handler_idle(1) keys_move_fields keys_escape_fields)

lemma handler_P_block_fires:
  "P_fires keys s \<Longrightarrow>
   ProcessKeyboardEvents keys s =
     keys_3 keys (keys_2 keys (keys_1 keys (keys_O keys
       ((keys_move keys (keys_escape keys s))
          \<lparr>bOrthographicProjection := False, pPressed := True,
           g_pCamera := recalc_front ((g_pCamera (keys_move keys (keys_escape keys s)))
             \<lparr>Position := Vec3 0 5 12, Yaw := - 90, Pitch := - 20\<rparr>)\<rparr>))))"
  by (simp add: ProcessKeyboardEvents_def keys_P_def Let_def P_fires_def reset_camera_def
      keys_move_fields keys_escape_fields)

lemma handler_P_block_latched:
  "keys KEY_P \<Longrightarrow> pPressed s \<Longrightarrow>
   ProcessKeyboardEvents keys s =
     keys_3 keys (keys_2 keys (keys_1 keys (keys_O keys (keys_move keys (keys_escape keys s)))))"
  by (simp add: ProcessKeyboardEvents_def keys_P_def Let_def P_fires_def
      keys_move_fields keys_escape_fields)

text \<open>
  C7, as the code has it. After every mouse move, and after every frame of
  \<open>ProcessKeyboardEvents\<close> in which one of the presets P, O, 1, 2, 3 fires, the front
  vector is the vector derived from the current yaw and pitch. A frame in which no preset
  fires leaves the front vector, the yaw and the pitch unchanged, and a scroll event
  leaves the whole camera unchanged, so they preserve the property. A front vector
  derived from yaw and pitch has length 1. The constructor sets the front vector to
  \<open>(0,-0.5,-2)\<close>, whatever the yaw and pitch of the new camera are.
\<close>

theorem front_vector_recomputed:
  "front_from_angles (g_pCamera (Mouse_Position_Callback x y s))
   \<and> (front_from_angles (g_pCamera (ProcessKeyboardEvents keys s)) \<longleftrightarrow>
        preset_fires keys s \<or> front_from_angles (g_pCamera s))
   \<and> (front_from_angles (g_pCamera (Scroll_Callback a b s)) \<longleftrightarrow>
        front_from_angles (g_pCamera s))
   \<and> glm_dot (derived_front yaw pitch) (derived_front yaw pitch) = 1
   \<and> Front (g_pCamera (ViewManager_new cam)) = Vec3 0 (- 0.5) (- 2)
   \<and> (\<not> preset_fires keys s \<longrightarrow>
        Front (g_pCamera (ProcessKeyboardEvents keys s)) = Front (g_pCamera s)
        \<and> Yaw (g_pCamera (ProcessKeyboardEvents keys s)) = Yaw (g_pCamera s)
        \<and> Pitch (g_pCamera (ProcessKeyboardEvents keys s)) = Pitch (g_pCamera s))
   \<and> g_pCamera (Scroll_Callback a b s) = g_pCamera s"
  by (simp add: Mouse_Position_Callback_camera front_recalc ProcessKeyboardEvents_front
      derived_front_norm Scroll_Callback_def Let_def ViewManager_new_def handler_no_preset)

theorem front_vector_recomputed_witness:
  "preset_fires only_P (ViewManager_new default_camera)
   \<and> front_from_angles (g_pCamera (ProcessKeyboardEvents only_P (ViewManager_new default_camera)))
   \<and> front_from_angles (g_pCamera (Mouse_Position_Callback 10 20 (ViewManager_new default_camera)))
   \<and> \<not> preset_fires no_key (ViewManager_new default_camera)
   \<and> Front (g_pCamera (ProcessKeyboardEvents no_key (ViewManager_new default_camera))) =
       Vec3 0 (- 0.5) (- 2)
   \<and> Yaw (g_pCamera (ProcessKeyboardEvents no_key (ViewManager_new default_camera))) = - 90
   \<and> Pitch (g_pCamera (ProcessKeyboardEvents no_key (ViewManager_new default_camera))) = 0"
proof -
  have f: "preset_fires only_P (ViewManager_new default_camera)"
    by (simp add: preset_fires_def P_fires_def only_P_def ViewManager_new_def)
  have n: "\<not> preset_fires no_key (ViewManager_new default_camera)"
    by (simp add: preset_fires_def P_fires_def no_key_def)
  have c: "Front (g_pCamera (ViewManager_new default_camera)) = Vec3 0 (- 0.5) (- 2)"
    "Yaw (g_pCamera (ViewManager_new default_camera)) = - 90"
    "Pitch (g_pCamera (ViewManager_new default_camera)) = 0"
    by (simp_all add: ViewManager_new_def default_camera_def)
  from f front_vector_recomputed [of 10 20 "ViewManager_new default_camera" only_P 0 0 0 0
      default_camera]
  have a: "front_from_angles (g_pCamera (ProcessKeyboardEvents only_P (ViewManager_new default_camera)))
     \<and> front_from_angles (g_pCamera (Mouse_Position_Callback 10 20 (ViewManager_new default_camera)))"
    by simp
  from n c front_vector_recomputed [of 10 20 "ViewManager_new default_camera" no_key 0 0 0 0
      default_camera]
  have b: "Front (g_pCamera (ProcessKeyboardEvents no_key (ViewManager_new default_camera))) =
       Vec3 0 (- 0.5) (- 2)
   \<and> Yaw (g_pCamera (ProcessKeyboardEvents no_key (ViewManager_new default_camera))) = - 90
   \<and> Pitch (g_pCamera (ProcessKeyboardEvents no_key (ViewManager_new default_camera))) = 0"
    by simp
  from f n a b show ?thesis by simp
qed

text \<open>
  Immediately after construction the front vector is not the one derived from yaw and
  pitch: it is \<open>(0,-0.5,-2)\<close>, of squared length 4.25.
\<close>

theorem front_vector_counterexample:
  "\<not> front_from_angles (g_pCamera (ViewManager_new default_camera))"
proof
  assume "front_from_angles (g_pCamera (ViewManager_new default_camera))"
  then have "derived_front (- 90) 0 = Vec3 0 (- 0.5) (- 2)"
    by (simp add: front_from_angles_def ViewManager_new_def default_camera_def)
  then have "glm_dot (derived_front (- 90) 0) (derived_front (- 90) 0) =
      glm_dot (Vec3 0 (- 0.5) (- 2)) (Vec3 0 (- 0.5) (- 2))"
    by simp
  then show False
    by (simp add: derived_front_norm)
qed

subsection \<open>The pitch\<close>

lemma pitch_rises:
  assumes "\<forall>d\<in>set (pitch_increments evs s). 0 \<le> d"
  shows "min 89 (Pitch (g_pCamera s) + sum_list (pitch_increments evs s))
           \<le> Pitch (g_pCamera (mouse_moves evs s))
       \<and> (evs \<noteq> [] \<longrightarrow> Pitch (g_pCamera (mouse_moves evs s)) \<le> 89)"
  using assms
proof (induction evs arbitrary: s)
  case Nil
  then show ?case by simp
next
  case (Cons ev evs)
  obtain x y where ev: "ev = (x, y)" by (cases ev)
  let ?s1 = "Mouse_Position_Callback x y s"
  let ?d = "mouse_yoffset y s"
  let ?S = "sum_list (pitch_increments evs ?s1)"
  from Cons.prems ev have d: "0 \<le> ?d" and rest: "\<forall>d\<in>set (pitch_increments evs ?s1). 0 \<le> d"
    by simp_all
  from rest have S: "0 \<le> ?S" by (simp add: sum_list_nonneg)
  note IH = Cons.IH [OF rest]
  have p1: "min 89 (Pitch (g_pCamera s) + ?d) \<le> Pitch (g_pCamera ?s1)"
    and p1': "Pitch (g_pCamera ?s1) \<le> 89"
    by (simp_all add: Mouse_Position_Callback_pitch)
  have lower: "min 89 (Pitch (g_pCamera s) + (?d + ?S)) \<le> min 89 (Pitch (g_pCamera ?s1) + ?S)"
    using p1 S by (simp add: min_def split: if_splits)
  have upper: "Pitch (g_pCamera (mouse_moves evs ?s1)) \<le> 89"
  proof (cases evs)
    case Nil
    then show ?thesis using p1' by simp
  next
    case (Cons a list)
    then show ?thesis using IH by simp
  qed
  from IH lower upper ev show ?case by simp
qed

lemma pitch_falls:
  assumes "\<forall>d\<in>set (pitch_increments evs s). d \<le> 0"
  shows "Pitch (g_pCamera (mouse_moves evs s))
           \<le> max (- 89) (Pitch (g_pCamera s) + sum_list (pitch_increments evs s))
       \<and> (evs \<noteq> [] \<longrightarrow> - 89 \<le> Pitch (g_pCamera (mouse_moves evs s)))"
  using assms
proof (induction evs arbitrary: s)
  case Nil
  then show ?case by simp
next
  case (Cons ev evs)
  obtain x y where ev: "ev = (x, y)" by (cases ev)
  let ?s1 = "Mouse_Position_Callback x y s"
  let ?d = "mouse_yoffset y s"
  let ?S = "sum_list (pitch_increments evs ?s1)"
  from Cons.prems ev have d: "?d \<le> 0" and rest: "\<forall>d\<in>set (pitch_increments evs ?s1). d \<le> 0"
    by simp_all
  from rest have S: "?S \<le> 0" by (simp add: sum_list_nonpos)
  note IH = Cons.IH [OF rest]
  have p1: "Pitch (g_pCamera ?s1) \<le> max (- 89) (Pitch (g_pCamera s) + ?d)"
    and p1': "- 89 \<le> Pitch (g_pCamera ?s1)"
    by (simp_all add: Mouse_Position_Callback_pitch)
  have upper: "max (- 89) (Pitch (g_pCamera ?s1) + ?S) \<le> max (- 89) (Pitch (g_pCamera s) + (?d + ?S))"
    using p1 S by (simp add: max_def split: if_splits)
  have lower: "- 89 \<le> Pitch (g_pCamera (mouse_moves evs ?s1))"
  proof (cases evs)
    case Nil
    then show ?thesis using p1' by simp
  next
    case (Cons a list)
    then show ?thesis using IH by simp
  qed
  from IH lower upper ev show ?case by simp
qed

text \<open>
  C8, as the code has it. After every mouse move the pitch lies in \<open>[-89, 89]\<close>. The clamp
  acts on each event, not on the total: for a run of mouse moves whose pitch increments
  are all non-negative and total \<open>+10000\<close>, from a pitch of at least \<open>-9911\<close> (so from any
  pitch in \<open>[-89.9, 89]\<close>), the final pitch is exactly \<open>89\<close>; and symmetrically, for
  increments that are all non-positive and total \<open>-10000\<close>, from a pitch of at most
  \<open>9911\<close>, it is exactly \<open>-89\<close>.
\<close>

theorem pitch_clamp:
  "- 89 \<le> Pitch (g_pCamera (Mouse_Position_Callback x y s))
   \<and> Pitch (g_pCamera (Mouse_Position_Callback x y s)) \<le> 89
   \<and> ((\<forall>d\<in>set (pitch_increments evs s). 0 \<le> d)
        \<and> sum_list (pitch_increments evs s) = 10000
        \<and> - 9911 \<le> Pitch (g_pCamera s)
      \<longrightarrow> Pitch (g_pCamera (mouse_moves evs s)) = 89)
   \<and> ((\<forall>d\<in>set (pitch_increments evs s). d \<le> 0)
        \<and> sum_list (pitch_increments evs s) = - 10000
        \<and> Pitch (g_pCamera s) \<le> 9911
      \<longrightarrow> Pitch (g_pCamera (mouse_moves evs s)) = - 89)"
proof (intro conjI impI)
  show "- 89 \<le> Pitch (g_pCamera (Mouse_Position_Callback x y s))"
    by (simp add: Mouse_Position_Callback_pitch)
  show "Pitch (g_pCamera (Mouse_Position_Callback x y s)) \<le> 89"
    by (simp add: Mouse_Position_Callback_pitch)
next
  assume h: "(\<forall>d\<in>set (pitch_increments evs s). 0 \<le> d)
        \<and> sum_list (pitch_increments evs s) = 10000
        \<and> - 9911 \<le> Pitch (g_pCamera s)"
  then have ne: "evs \<noteq> []" by auto
  from h pitch_rises [of evs s] ne
  show "Pitch (g_pCamera (mouse_moves evs s)) = 89" by simp
next
  assume h: "(\<forall>d\<in>set (pitch_increments evs s). d \<le> 0)
        \<and> sum_list (pitch_increments evs s) = - 10000
        \<and> Pitch (g_pCamera s) \<le> 9911"
  then have ne: "evs \<noteq> []" by auto
  from h pitch_falls [of evs s] ne
  show "Pitch (g_pCamera (mouse_moves evs s)) = - 89" by simp
qed

lemma pitch_run_up:
  "pitch_increments [(0, 0), (0, - 40000), (0, - 100000)] (ViewManager_new default_camera) =
     [0, 4000, 6000]"
  by (simp add: mouse_yoffset_def Mouse_Position_Callback_def Let_def ViewManager_new_def)

theorem pitch_clamp_witness:
  "pitch_increments [(0, 0), (0, - 40000), (0, - 100000)] (ViewManager_new default_camera) =
     [0, 4000, 6000]
   \<and> sum_list (pitch_increments [(0, 0), (0, - 40000), (0, - 100000)]
        (ViewManager_new default_camera)) = 10000
   \<and> - 9911 \<le> Pitch (g_pCamera (ViewManager_new default_camera))
   \<and> Pitch (g_pCamera (mouse_moves [(0, 0), (0, - 40000), (0, - 100000)]
        (ViewManager_new default_camera))) = 89"
proof -
  have a: "\<forall>d\<in>set (pitch_increments [(0, 0), (0, - 40000), (0, - 100000)]
        (ViewManager_new default_camera)). 0 \<le> d"
    by (simp only: pitch_run_up) simp
  have b: "sum_list (pitch_increments [(0, 0), (0, - 40000), (0, - 100000)]
        (ViewManager_new default_camera)) = 10000"
    by (simp only: pitch_run_up) simp
  have c: "- 9911 \<le> Pitch (g_pCamera (ViewManager_new default_camera))"
    by (simp add: ViewManager_new_def default_camera_def)
  from a b c pitch_clamp [of 0 0 "ViewManager_new default_camera"
      "[(0, 0), (0, - 40000), (0, - 100000)]"]
  have "Pitch (g_pCamera (mouse_moves [(0, 0), (0, - 40000), (0, - 100000)]
        (ViewManager_new default_camera))) = 89"
    by blast
  with b c pitch_run_up show ?thesis by simp
qed

text \<open>
  A run of mouse moves whose pitch increments total \<open>+10000\<close> and which ends at \<open>-89\<close>: the
  increments are \<open>0\<close>, \<open>+20000\<close> and \<open>-10000\<close>.
\<close>

theorem pitch_clamp_counterexample:
  "pitch_increments [(0, 0), (0, - 200000), (0, - 100000)] (ViewManager_new default_camera) =
     [0, 20000, - 10000]
   \<and> sum_list (pitch_increments [(0, 0), (0, - 200000), (0, - 100000)]
        (ViewManager_new default_camera)) = 10000
   \<and> Pitch (g_pCamera (mouse_moves [(0, 0), (0, - 200000), (0, - 100000)]
        (ViewManager_new default_camera))) = - 89
   \<and> Pitch (g_pCamera (mouse_moves [(0, 0), (0, - 200000), (0, - 100000)]
        (ViewManager_new default_camera))) \<noteq> 89"
  by (simp add: mouse_yoffset_def Mouse_Position_Callback_def Let_def ViewManager_new_def
      default_camera_def clamp_pitch_def recalc_front_def)

subsection \<open>The perspective reset\<close>

lemma resets_while_held:
  "(\<forall>k\<in>set ks. k KEY_P) \<Longrightarrow> pPressed s \<Longrightarrow> perspective_resets ks s = 0"
proof (induction ks arbitrary: s)
  case Nil
  then show ?case by simp
next
  case (Cons k ks)
  from Cons.prems(1) have k: "k KEY_P" and rest: "\<forall>k\<in>set ks. k KEY_P"
    by auto
  have "pPressed (ProcessKeyboardEvents k s)"
    by (simp add: ProcessKeyboardEvents_pPressed k)
  with rest have "perspective_resets ks (ProcessKeyboardEvents k s) = 0"
    by (rule Cons.IH)
  with Cons.prems(2) show ?case
    by (simp add: P_fires_def keys_move_fields keys_escape_fields)
qed

lemma resets_on_press:
  "ks \<noteq> [] \<Longrightarrow> (\<forall>k\<in>set ks. k KEY_P) \<Longrightarrow> \<not> pPressed s \<Longrightarrow> perspective_resets ks s = 1"
proof (cases ks)
  case Nil
  assume "ks \<noteq> []"
  with Nil show ?thesis by simp
next
  case (Cons k ks')
  assume h: "\<forall>k\<in>set ks. k KEY_P" and np: "\<not> pPressed s"
  from h Cons have k: "k KEY_P" and rest: "\<forall>k\<in>set ks'. k KEY_P" by auto
  have "perspective_resets ks' (ProcessKeyboardEvents k s) = 0"
    by (rule resets_while_held [OF rest]) (simp add: ProcessKeyboardEvents_pPressed k)
  with Cons k np show ?thesis
    by (simp add: P_fires_def keys_move_fields keys_escape_fields)
qed

lemma without_P_pPressed:
  "pPressed (ProcessKeyboardEvents_without_P keys s) = pPressed s"
  by (simp add: ProcessKeyboardEvents_without_P_def keys_3_flags keys_2_flags keys_1_flags
      keys_O_flags keys_move_fields keys_escape_fields)

lemma frames_while_held:
  "(\<forall>k\<in>set ks. k KEY_P) \<Longrightarrow> pPressed s \<Longrightarrow> frames ks s = frames_without_P ks s"
proof (induction ks arbitrary: s)
  case Nil
  then show ?case by simp
next
  case (Cons k ks)
  from Cons.prems(1) have k: "k KEY_P" and rest: "\<forall>k\<in>set ks. k KEY_P"
    by auto
  have step: "ProcessKeyboardEvents k s = ProcessKeyboardEvents_without_P k s"
    using k Cons.prems(2)
    by (simp add: handler_P_block_latched ProcessKeyboardEvents_without_P_def)
  have "pPressed (ProcessKeyboardEvents_without_P k s)"
    using Cons.prems(2) by (simp add: without_P_pPressed)
  with rest have "frames ks (ProcessKeyboardEvents_without_P k s) =
      frames_without_P ks (ProcessKeyboardEvents_without_P k s)"
    by (rule Cons.IH)
  then show ?case by (simp add: step)
qed

text \<open>
  C9. If P is not latched and P is held for \<open>N \<ge> 1\<close> consecutive frames of
  \<open>ProcessKeyboardEvents\<close>, the perspective reset is executed in exactly one of them (the
  first); while P stays held after that it is executed in none, and the latch is
  released only by a frame in which P is released. In a frame in which the reset is
  executed, \<open>ProcessKeyboardEvents\<close> clears the orthographic flag, sets the position to
  \<open>(0,5,12)\<close>, yaw \<open>-90\<close>, pitch \<open>-20\<close>, recomputes the front vector from them and then
  runs the blocks of O, 1, 2 and 3; when none of these fires, that is the camera the frame
  ends with. In a frame in which P is held and latched, \<open>ProcessKeyboardEvents\<close> is the
  handler without the block of P: when no other preset fires, the orthographic flag,
  yaw, pitch and front vector are as before the frame and the camera is the one the
  movement keys leave. A run of such frames is a run of the handler without the block
  of P.
\<close>

theorem perspective_reset_once:
  "(ks \<noteq> [] \<and> (\<forall>k\<in>set ks. k KEY_P) \<and> \<not> pPressed s \<longrightarrow> perspective_resets ks s = 1)
   \<and> ((\<forall>k\<in>set ks. k KEY_P) \<and> pPressed s \<longrightarrow> perspective_resets ks s = 0)
   \<and> (pPressed (ProcessKeyboardEvents keys s) \<longleftrightarrow> keys KEY_P)
   \<and> (P_fires keys s \<longleftrightarrow> keys KEY_P \<and> \<not> pPressed s)
   \<and> (P_fires keys s \<longrightarrow>
        keys_P keys s = s\<lparr>bOrthographicProjection := False, pPressed := True,
          g_pCamera := recalc_front ((g_pCamera s)\<lparr>Position := Vec3 0 5 12, Yaw := - 90,
                                                    Pitch := - 20\<rparr>)\<rparr>
        \<and> front_from_angles (g_pCamera (keys_P keys s)))
   \<and> (keys KEY_P \<and> pPressed s \<longrightarrow> keys_P keys s = s)
   \<and> (P_fires keys s \<longrightarrow>
        ProcessKeyboardEvents keys s =
          keys_3 keys (keys_2 keys (keys_1 keys (keys_O keys
            ((keys_move keys (keys_escape keys s))
               \<lparr>bOrthographicProjection := False, pPressed := True,
                g_pCamera := recalc_front ((g_pCamera (keys_move keys (keys_escape keys s)))
                  \<lparr>Position := Vec3 0 5 12, Yaw := - 90, Pitch := - 20\<rparr>)\<rparr>)))))
   \<and> (P_fires keys s \<and> \<not> other_preset_fires keys s \<longrightarrow>
        bOrthographicProjection (ProcessKeyboardEvents keys s) = False
        \<and> Position (g_pCamera (ProcessKeyboardEvents keys s)) = Vec3 0 5 12
        \<and> Yaw (g_pCamera (ProcessKeyboardEvents keys s)) = - 90
        \<and> Pitch (g_pCamera (ProcessKeyboardEvents keys s)) = - 20
        \<and> Front (g_pCamera (ProcessKeyboardEvents keys s)) = derived_front (- 90) (- 20))
   \<and> (keys KEY_P \<and> pPressed s \<longrightarrow>
        ProcessKeyboardEvents keys s = ProcessKeyboardEvents_without_P keys s)
   \<and> (keys KEY_P \<and> pPressed s \<and> \<not> other_preset_fires keys s \<longrightarrow>
        bOrthographicProjection (ProcessKeyboardEvents keys s) = bOrthographicProjection s
        \<and> g_pCamera (ProcessKeyboardEvents keys s) =
            g_pCamera (keys_move keys (keys_escape keys s))
        \<and> Yaw (g_pCamera (ProcessKeyboardEvents keys s)) = Yaw (g_pCamera s)
        \<and> Pitch (g_pCamera (ProcessKeyboardEvents keys s)) = Pitch (g_pCamera s)
        \<and> Front (g_pCamera (ProcessKeyboardEvents keys s)) = Front (g_pCamera s))
   \<and> ((\<forall>k\<in>set ks. k KEY_P) \<and> pPressed s \<longrightarrow> frames ks s = frames_without_P ks s)"
proof (intro conjI impI)
  assume "ks \<noteq> [] \<and> (\<forall>k\<in>set ks. k KEY_P) \<and> \<not> pPressed s"
  then show "perspective_resets ks s = 1" using resets_on_press [of ks s] by blast
next
  assume "(\<forall>k\<in>set ks. k KEY_P) \<and> pPressed s"
  then show "perspective_resets ks s = 0" using resets_while_held [of ks s] by blast
next
  show "pPressed (ProcessKeyboardEvents keys s) = keys KEY_P"
    by (rule ProcessKeyboardEvents_pPressed)
next
  show "P_fires keys s = (keys KEY_P \<and> \<not> pPressed s)"
    by (simp add: P_fires_def)
next
  assume "P_fires keys s"
  then show "keys_P keys s = s\<lparr>bOrthographicProjection := False, pPressed := True,
          g_pCamera := recalc_front ((g_pCamera s)\<lparr>Position := Vec3 0 5 12, Yaw := - 90,
                                                    Pitch := - 20\<rparr>)\<rparr>"
    by (simp add: keys_P_def Let_def P_fires_def reset_camera_def)
next
  assume "P_fires keys s"
  then show "front_from_angles (g_pCamera (keys_P keys s))"
    by (simp add: keys_P_front)
next
  assume "keys KEY_P \<and> pPressed s"
  then show "keys_P keys s = s"
    by (simp add: keys_P_def Let_def P_fires_def)
next
  assume "P_fires keys s"
  then show "ProcessKeyboardEvents keys s =
          keys_3 keys (keys_2 keys (keys_1 keys (keys_O keys
            ((keys_move keys (keys_escape keys s))
               \<lparr>bOrthographicProjection := False, pPressed := True,
                g_pCamera := recalc_front ((g_pCamera (keys_move keys (keys_escape keys s)))
                  \<lparr>Position := Vec3 0 5 12, Yaw := - 90, Pitch := - 20\<rparr>)\<rparr>))))"
    by (rule handler_P_block_fires)
next
  assume h: "P_fires keys s \<and> \<not> other_preset_fires keys s"
  then have c: "g_pCamera (ProcessKeyboardEvents keys s) =
      reset_camera (Vec3 0 5 12) (- 90) (- 20) (g_pCamera (keys_move keys (keys_escape keys s)))"
    by (simp add: handler_fires(1))
  from h show "bOrthographicProjection (ProcessKeyboardEvents keys s) = False"
    by (simp add: handler_fires(2))
  show "Position (g_pCamera (ProcessKeyboardEvents keys s)) = Vec3 0 5 12"
    by (simp add: c reset_camera_fields)
  show "Yaw (g_pCamera (ProcessKeyboardEvents keys s)) = - 90"
    by (simp add: c reset_camera_fields)
  show "Pitch (g_pCamera (ProcessKeyboardEvents keys s)) = - 20"
    by (simp add: c reset_camera_fields)
  show "Front (g_pCamera (ProcessKeyboardEvents keys s)) = derived_front (- 90) (- 20)"
    by (simp add: c reset_camera_fields)
next
  assume "keys KEY_P \<and> pPressed s"
  then show "ProcessKeyboardEvents keys s = ProcessKeyboardEvents_without_P keys s"
    by (simp add: handler_P_block_latched ProcessKeyboardEvents_without_P_def)
next
  assume h: "keys KEY_P \<and> pPressed s \<and> \<not> other_preset_fires keys s"
  then have np: "\<not> P_fires keys s" and no: "\<not> other_preset_fires keys s"
    by (simp_all add: P_fires_def)
  show "bOrthographicProjection (ProcessKeyboardEvents keys s) = bOrthographicProjection s"
    by (rule handler_idle(2) [OF np no])
  show c: "g_pCamera (ProcessKeyboardEvents keys s) =
      g_pCamera (keys_move keys (keys_escape keys s))"
    by (rule handler_idle(1) [OF np no])
  show "Yaw (g_pCamera (ProcessKeyboardEvents keys s)) = Yaw (g_pCamera s)"
    by (simp add: c keys_move_fields keys_escape_fields)
  show "Pitch (g_pCamera (ProcessKeyboardEvents keys s)) = Pitch (g_pCamera s)"
    by (simp add: c keys_move_fields keys_escape_fields)
  show "Front (g_pCamera (ProcessKeyboardEvents keys s)) = Front (g_pCamera s)"
    by (simp add: c keys_move_fields keys_escape_fields)
next
  assume "(\<forall>k\<in>set ks. k KEY_P) \<and> pPressed s"
  then show "frames ks s = frames_without_P ks s"
    using frames_while_held [of ks s] by blast
qed

lemma held_then_turned:
  "pPressed (mouse_moves [(0, 0), (100, 0)]
     (ProcessKeyboardEvents only_P (ViewManager_new default_camera)))"
  "\<not> other_preset_fires only_P (mouse_moves [(0, 0), (100, 0)]
     (ProcessKeyboardEvents only_P (ViewManager_new default_camera)))"
  "Yaw (g_pCamera (mouse_moves [(0, 0), (100, 0)]
     (ProcessKeyboardEvents only_P (ViewManager_new default_camera)))) = - 80"
  by (simp_all add: ProcessKeyboardEvents_def keys_3_def keys_2_def keys_1_def keys_O_def
      keys_P_def P_fires_def keys_move_def keys_escape_def only_P_def ViewManager_new_def
      reset_camera_def recalc_front_def Mouse_Position_Callback_def mouse_xoffset_def
      mouse_yoffset_def clamp_pitch_def Let_def other_preset_fires_def)

theorem perspective_reset_once_witness:
  "[only_P, only_P, only_P] \<noteq> []
   \<and> list_all (\<lambda>k. k KEY_P) [only_P, only_P, only_P]
   \<and> \<not> pPressed (ViewManager_new default_camera)
   \<and> perspective_resets [only_P, only_P, only_P] (ViewManager_new default_camera) = 1
   \<and> pPressed (frames [only_P, only_P, only_P] (ViewManager_new default_camera))
   \<and> perspective_resets [only_P, only_P] (frames [only_P] (ViewManager_new default_camera)) = 0
   \<and> \<not> pPressed (ProcessKeyboardEvents no_key
         (frames [only_P, only_P, only_P] (ViewManager_new default_camera)))
   \<and> P_fires only_P (ViewManager_new default_camera)
   \<and> \<not> other_preset_fires only_P (ViewManager_new default_camera)
   \<and> Yaw (g_pCamera (ProcessKeyboardEvents only_P (ViewManager_new default_camera))) = - 90
   \<and> Pitch (g_pCamera (ProcessKeyboardEvents only_P (ViewManager_new default_camera))) = - 20
   \<and> Position (g_pCamera (ProcessKeyboardEvents only_P (ViewManager_new default_camera))) =
       Vec3 0 5 12
   \<and> Yaw (g_pCamera (ProcessKeyboardEvents only_P
         (mouse_moves [(0, 0), (100, 0)]
           (ProcessKeyboardEvents only_P (ViewManager_new default_camera))))) = - 80
   \<and> frames [only_P, only_P] (frames [only_P] (ViewManager_new default_camera)) =
       frames_without_P [only_P, only_P] (frames [only_P] (ViewManager_new default_camera))"
proof -
  let ?s = "ViewManager_new default_camera"
  let ?s1 = "ProcessKeyboardEvents only_P ?s"
  let ?s2 = "mouse_moves [(0, 0), (100, 0)] ?s1"
  have a: "\<forall>k\<in>set [only_P, only_P, only_P]. k KEY_P" by (simp add: only_P_def)
  have a2: "\<forall>k\<in>set [only_P, only_P]. k KEY_P" by (simp add: only_P_def)
  have b: "\<not> pPressed ?s" by (simp add: ViewManager_new_def)
  note T = perspective_reset_once
  note count_one = T [THEN conjunct1, rule_format]
  note count_none = T [THEN conjunct2, THEN conjunct1, rule_format]
  note latch = T [THEN conjunct2, THEN conjunct2, THEN conjunct1]
  note fires = T [THEN conjunct2, THEN conjunct2, THEN conjunct2, THEN conjunct2,
      THEN conjunct2, THEN conjunct2, THEN conjunct2, THEN conjunct1, rule_format]
  note held = T [THEN conjunct2, THEN conjunct2, THEN conjunct2, THEN conjunct2,
      THEN conjunct2, THEN conjunct2, THEN conjunct2, THEN conjunct2, THEN conjunct2,
      THEN conjunct1, rule_format]
  note run_held = T [THEN conjunct2, THEN conjunct2, THEN conjunct2, THEN conjunct2,
      THEN conjunct2, THEN conjunct2, THEN conjunct2, THEN conjunct2, THEN conjunct2,
      THEN conjunct2, rule_format]
  have one: "perspective_resets [only_P, only_P, only_P] ?s = 1"
    by (rule count_one) (use a b in blast)
  have p1: "pPressed (frames [only_P] ?s)"
    using latch [of only_P ?s] by (simp add: only_P_def)
  have p3: "pPressed (frames [only_P, only_P, only_P] ?s)"
    using latch [of only_P "frames [only_P, only_P] ?s"] by (simp add: only_P_def)
  have zero: "perspective_resets [only_P, only_P] (frames [only_P] ?s) = 0"
    by (rule count_none) (use a2 p1 in blast)
  have rel: "\<not> pPressed (ProcessKeyboardEvents no_key (frames [only_P, only_P, only_P] ?s))"
    using latch [of no_key "frames [only_P, only_P, only_P] ?s"] by (simp add: no_key_def)
  have l: "list_all (\<lambda>k. k KEY_P) [only_P, only_P, only_P]" by (simp add: only_P_def)
  have f: "P_fires only_P ?s"
    by (simp add: P_fires_def only_P_def ViewManager_new_def)
  have o: "\<not> other_preset_fires only_P ?s"
    by (simp add: other_preset_fires_def only_P_def)
  have reset: "Yaw (g_pCamera ?s1) = - 90 \<and> Pitch (g_pCamera ?s1) = - 20
      \<and> Position (g_pCamera ?s1) = Vec3 0 5 12"
    using fires [of only_P ?s] f o by blast
  have latched: "only_P KEY_P \<and> pPressed ?s2 \<and> \<not> other_preset_fires only_P ?s2"
    by (simp only: held_then_turned) (simp add: only_P_def)
  have "Yaw (g_pCamera (ProcessKeyboardEvents only_P ?s2)) = Yaw (g_pCamera ?s2)"
    using held [of only_P ?s2] latched by blast
  also have "\<dots> = - 80"
    by (rule held_then_turned(3))
  finally have kept: "Yaw (g_pCamera (ProcessKeyboardEvents only_P ?s2)) = - 80" .
  have run: "frames [only_P, only_P] (frames [only_P] ?s) =
      frames_without_P [only_P, only_P] (frames [only_P] ?s)"
    by (rule run_held) (use a2 p1 in blast)
  show ?thesis
    by (intro conjI) (use l b one p3 zero rel f o reset kept run in simp_all)
qed

end
